theory Spec2Isabelle
  imports
    Complex_Main
    "HOL-Library.AList"
    "HOL-Library.Sublist"
    "HOL-Library.Char_ord"
    "HOL-Library.List_Lexorder"
begin

section \<open>JavaScript values and errors\<close>

text \<open>
  The cache stores whatever the wrapped fetch function resolves to, and the wrapper
  branches on the truthiness of what it reads back. Values are therefore modelled with
  their JavaScript shape. Numbers are the integral ones (counts, timestamps);
  \<open>NaN\<close> and fractions do not occur in the data the services handle.
\<close>

datatype jsval =
    JUndefined
  | JNull
  | JBool bool
  | JNum int
  | JStr string
  | JArr "jsval list"
  | JObj "(string \<times> jsval) list"

text \<open>\<open>if (v)\<close>: the values JavaScript treats as false are \<open>undefined\<close>, \<open>null\<close>,
  \<open>false\<close>, \<open>0\<close> and the empty string; every array and object is true.\<close>

fun truthy :: "jsval \<Rightarrow> bool" where
  "truthy JUndefined = False"
| "truthy JNull = False"
| "truthy (JBool b) = b"
| "truthy (JNum n) = (n \<noteq> 0)"
| "truthy (JStr s) = (s \<noteq> [])"
| "truthy (JArr xs) = True"
| "truthy (JObj kvs) = True"

text \<open>A thrown value or an \<open>error\<close> field of a remote reply: an optional code (the
  remote store's SQLSTATE, such as \<open>23505\<close>) and a message.\<close>

datatype js_error = JsError (err_code: "string option") (err_message: string)

section \<open>The cache of the data service utilities\<close>

text \<open>
  \<open>const cache = { data: new Map(), timestamps: new Map(), ... }\<close>. A JavaScript
  \<open>Map\<close> keeps its keys in insertion order; \<open>set\<close> on a present key replaces the
  value in place and on a new key appends, \<open>delete\<close> removes the key. These are
  \<open>AList.update\<close> and \<open>AList.delete\<close> on an association list, and \<open>get\<close> is
  \<open>map_of\<close> (with \<open>undefined\<close> for a missing key).
\<close>

record cache =
  data :: "(string \<times> jsval) list"
  timestamps :: "(string \<times> int) list"

definition empty_cache :: cache where
  "empty_cache = \<lparr>data = [], timestamps = []\<rparr>"

text \<open>\<open>this.data.delete(key); this.timestamps.delete(key)\<close>, the pair of statements that
  \<open>get\<close> and \<open>invalidate\<close> both run.\<close>

definition delete_entry :: "string \<Rightarrow> cache \<Rightarrow> cache" where
  "delete_entry key c =
     c\<lparr>data := AList.delete key (data c), timestamps := AList.delete key (timestamps c)\<rparr>"

text \<open>
  \<open>cache.get(key, maxAge)\<close>, with \<open>now\<close> the value \<open>Date.now()\<close> has when it runs.
  \<open>!timestamp\<close> holds for a missing timestamp and for the timestamp \<open>0\<close>. The
  result is the value returned together with the cache after the call (an expired entry
  is deleted).
\<close>

definition cache_get :: "string \<Rightarrow> int \<Rightarrow> int \<Rightarrow> cache \<Rightarrow> jsval \<times> cache" where
  "cache_get key maxAge now c =
     (case map_of (timestamps c) key of
        None \<Rightarrow> (JNull, c)
      | Some timestamp \<Rightarrow>
          if timestamp = 0 then (JNull, c)
          else
            let age = now - timestamp in
            if age > maxAge then (JNull, delete_entry key c)
            else (case map_of (data c) key of None \<Rightarrow> (JUndefined, c) | Some d \<Rightarrow> (d, c)))"

text \<open>\<open>cache.set(key, data)\<close>, with \<open>now\<close> the value of \<open>Date.now()\<close>.\<close>

definition cache_set :: "string \<Rightarrow> jsval \<Rightarrow> int \<Rightarrow> cache \<Rightarrow> cache" where
  "cache_set key d now c =
     c\<lparr>data := AList.update key d (data c), timestamps := AList.update key now (timestamps c)\<rparr>"

text \<open>
  \<open>cache.invalidate(keyOrPrefix, isPrefix = false)\<close>. With \<open>isPrefix\<close> the keys to
  delete are collected from \<open>this.data\<close> (\<open>forEach\<close> over the payload map,
  \<open>key.startsWith\<close>), and then each one is deleted from both maps. An omitted
  \<open>isPrefix\<close> is \<open>False\<close>.
\<close>

definition startsWith :: "string \<Rightarrow> string \<Rightarrow> bool" where
  "startsWith key p = prefix p key"

definition invalidate :: "string \<Rightarrow> bool \<Rightarrow> cache \<Rightarrow> cache" where
  "invalidate keyOrPrefix isPrefix c =
     (if isPrefix then
        let keysToDelete = map fst (filter (\<lambda>(key, _). startsWith key keyOrPrefix) (data c))
        in fold delete_entry keysToDelete c
      else delete_entry keyOrPrefix c)"

text \<open>\<open>cache.clear()\<close>.\<close>

definition clear :: "cache \<Rightarrow> cache" where
  "clear c = c\<lparr>data := [], timestamps := []\<rparr>"

text \<open>The exported \<open>invalidateCache\<close> and \<open>clearCache\<close> act on the module's cache.\<close>

definition invalidateCache :: "string \<Rightarrow> bool \<Rightarrow> cache \<Rightarrow> cache" where
  "invalidateCache keyOrPrefix isPrefix c = invalidate keyOrPrefix isPrefix c"

definition clearCache :: "cache \<Rightarrow> cache" where
  "clearCache c = clear c"

text \<open>
  Every operation writes or deletes a key in both maps together, so in every state the
  cache reaches from the empty one the two maps have the same keys.
\<close>

definition cache_inv :: "cache \<Rightarrow> bool" where
  "cache_inv c = (set (map fst (timestamps c)) = set (map fst (data c)))"

subsection \<open>The cacheable fetch\<close>

text \<open>
  \<open>createCacheableFetch(fetchFn, cacheKey, cacheMaxAge = 60000, fallbackFn = null)\<close>
  returns an async function of \<open>...args\<close>. The state it acts on is the module's cache;
  \<open>fetch_log\<close> records the argument lists \<open>fetchFn\<close> has been invoked with, so that
  invocations can be counted.

  \<^item> \<open>fetchFn\<close> and \<open>fallbackFn\<close> either resolve to a value or throw (reject). What
    \<open>fetchFn\<close> does may change from one call to the next (it asks a remote store),
    so every call of the wrapped function is given the behaviour \<open>fetchFn\<close> has then.
  \<^item> \<open>stringify\<close> stands for \<open>JSON.stringify\<close> on the argument list; it can throw
    (a cyclic argument), inside the \<open>try\<close>.
  \<^item> \<open>now_get\<close> and \<open>now_set\<close> are the readings of \<open>Date.now()\<close> inside
    \<open>cache.get\<close> and, after the fetch has been awaited, inside \<open>cache.set\<close>.
  \<^item> An absent \<open>cacheMaxAge\<close> is 60000.
\<close>

record 'a world =
  the_cache :: cache
  fetch_log :: "'a list"

definition on_error ::
  "('a \<Rightarrow> js_error + jsval) option \<Rightarrow> 'a \<Rightarrow> js_error \<Rightarrow> js_error + jsval" where
  "on_error fallbackFn args e =
     (case fallbackFn of Some g \<Rightarrow> g args | None \<Rightarrow> Inl e)"

definition default_maxAge :: "int option \<Rightarrow> int" where
  "default_maxAge cacheMaxAge = (case cacheMaxAge of None \<Rightarrow> 60000 | Some m \<Rightarrow> m)"

definition createCacheableFetch ::
  "('a \<Rightarrow> js_error + jsval) \<Rightarrow> string \<Rightarrow> int option \<Rightarrow> ('a \<Rightarrow> js_error + jsval) option \<Rightarrow>
   ('a \<Rightarrow> js_error + string) \<Rightarrow> 'a \<Rightarrow> int \<Rightarrow> int \<Rightarrow> 'a world \<Rightarrow> (js_error + jsval) \<times> 'a world" where
  "createCacheableFetch fetchFn cacheKey cacheMaxAge fallbackFn stringify args now_get now_set w =
     (case stringify args of
        Inl e \<Rightarrow> (on_error fallbackFn args e, w)
      | Inr s \<Rightarrow>
          let cacheKeyWithArgs = cacheKey @ '':'' @ s;
              (cachedData, c1) =
                 cache_get cacheKeyWithArgs (default_maxAge cacheMaxAge) now_get (the_cache w)
          in
            if truthy cachedData then (Inr cachedData, w\<lparr>the_cache := c1\<rparr>)
            else
              (case fetchFn args of
                 Inr d \<Rightarrow>
                   (Inr d, \<lparr>the_cache = cache_set cacheKeyWithArgs d now_set c1,
                            fetch_log = fetch_log w @ [args]\<rparr>)
               | Inl e \<Rightarrow>
                   (on_error fallbackFn args e,
                    \<lparr>the_cache = c1, fetch_log = fetch_log w @ [args]\<rparr>)))"

text \<open>The state before any call: an empty cache, no fetch made.\<close>

definition initial_world :: "'a world" where
  "initial_world = \<lparr>the_cache = empty_cache, fetch_log = []\<rparr>"

section \<open>The data model of the services\<close>

text \<open>
  Rows as the services handle them. A category embedded in a post (\<open>categories\<close>, the
  join of the remote select, or the literal object of the fallback data) may lack
  \<open>created_at\<close>. The Markdown body of a post (\<open>content\<close>) and the columns
  \<open>created_at\<close> and \<open>updated_at\<close> of the \<open>posts\<close> table, which the fallback data
  do not have, are left out of the record: no operation of the services reads or compares
  them.
\<close>

record category =
  cat_id :: string
  cat_name :: string
  cat_slug :: string
  cat_created_at :: "string option"

record post =
  post_id :: string
  title :: string
  post_slug :: string
  excerpt :: "string option"
  cover_path :: "string option"
  category_id :: "string option"
  published :: bool
  published_at :: "string option"
  views :: int
  likes :: int
  categories :: "category option"

subsection \<open>The fallback dataset\<close>

definition mockCategories :: "category list" where
  "mockCategories =
    [\<lparr>cat_id = ''1649b2bb-031b-416f-9277-a8ada9b1dfea'', cat_name = ''Technology'',
      cat_slug = ''technology'', cat_created_at = Some ''2024-01-01T00:00:00Z''\<rparr>,
     \<lparr>cat_id = ''d7efdb3b-6c15-42e6-9f37-5e7af86f4ff1'', cat_name = ''Travel'',
      cat_slug = ''travel'', cat_created_at = Some ''2024-01-01T00:00:00Z''\<rparr>,
     \<lparr>cat_id = ''de7e1f92-e3f1-4b91-8eb3-a5a6fba90c0d'', cat_name = ''Lifestyle'',
      cat_slug = ''lifestyle'', cat_created_at = Some ''2024-01-01T00:00:00Z''\<rparr>,
     \<lparr>cat_id = ''b9b5f12d-d4a5-4e3e-a4bc-3d0e30db0c18'', cat_name = ''Design'',
      cat_slug = ''design'', cat_created_at = Some ''2024-01-01T00:00:00Z''\<rparr>,
     \<lparr>cat_id = ''c5b8a573-ec83-4c0a-848c-ebc1c22a27a8'', cat_name = ''Programming'',
      cat_slug = ''programming'', cat_created_at = Some ''2024-01-01T00:00:00Z''\<rparr>]"

definition mockPosts :: "post list" where
  "mockPosts =
    [\<lparr>post_id = ''1649b2bb-031b-416f-9277-a8ada9b1dfeb'',
      title = ''Getting Started with React 19'',
      post_slug = ''getting-started-with-react-19'',
      excerpt = Some ''Learn the new features and improvements in React 19, including the new compiler and concurrent features that make your apps faster and more efficient.'',
      cover_path = Some ''https://picsum.photos/seed/react19/800/600'',
      category_id = Some ''1649b2bb-031b-416f-9277-a8ada9b1dfea'',
      published = True,
      published_at = Some ''2024-09-10T12:00:00Z'',
      views = 150,
      likes = 23,
      categories = Some \<lparr>cat_id = ''1649b2bb-031b-416f-9277-a8ada9b1dfea'',
        cat_name = ''Technology'', cat_slug = ''technology'', cat_created_at = None\<rparr>\<rparr>,
     \<lparr>post_id = ''d7efdb3b-6c15-42e6-9f37-5e7af86f4ff2'',
      title = ''Best Travel Destinations for 2024'',
      post_slug = ''best-travel-destinations-2024'',
      excerpt = Some ''Discover the most amazing places to visit in 2024, from hidden gems to popular hotspots. Complete with travel tips and budget recommendations.'',
      cover_path = Some ''https://picsum.photos/seed/thailand/800/600'',
      category_id = Some ''d7efdb3b-6c15-42e6-9f37-5e7af86f4ff1'',
      published = True,
      published_at = Some ''2024-09-09T12:00:00Z'',
      views = 89,
      likes = 12,
      categories = Some \<lparr>cat_id = ''d7efdb3b-6c15-42e6-9f37-5e7af86f4ff1'',
        cat_name = ''Travel'', cat_slug = ''travel'', cat_created_at = None\<rparr>\<rparr>,
     \<lparr>post_id = ''f9d68a5a-1a43-4d55-9eaf-e0f4337f1c0f'',
      title = ''The Art of Minimalist Web Design'',
      post_slug = ''art-of-minimalist-web-design'',
      excerpt = Some ''Explore the principles of minimalist web design and learn how to create clean, functional, and beautiful websites that focus on user experience.'',
      cover_path = Some ''https://picsum.photos/seed/design/800/600'',
      category_id = Some ''b9b5f12d-d4a5-4e3e-a4bc-3d0e30db0c18'',
      published = True,
      published_at = Some ''2024-09-08T12:00:00Z'',
      views = 67,
      likes = 8,
      categories = Some \<lparr>cat_id = ''b9b5f12d-d4a5-4e3e-a4bc-3d0e30db0c18'',
        cat_name = ''Design'', cat_slug = ''design'', cat_created_at = None\<rparr>\<rparr>,
     \<lparr>post_id = ''c5b8a573-ec83-4c0a-848c-ebc1c22a27a9'',
      title = ''Mastering Modern JavaScript: ES2024 Features'',
      post_slug = ''mastering-modern-javascript-es2024'',
      excerpt = Some ''Discover the latest JavaScript features in ES2024 and learn how to write more efficient, readable, and powerful code with practical examples.'',
      cover_path = Some ''https://picsum.photos/seed/javascript/800/600'',
      category_id = Some ''c5b8a573-ec83-4c0a-848c-ebc1c22a27a8'',
      published = True,
      published_at = Some ''2024-09-07T12:00:00Z'',
      views = 203,
      likes = 34,
      categories = Some \<lparr>cat_id = ''c5b8a573-ec83-4c0a-848c-ebc1c22a27a8'',
        cat_name = ''Programming'', cat_slug = ''programming'', cat_created_at = None\<rparr>\<rparr>]"

section \<open>The configuration gate and the remote store\<close>

text \<open>\<open>import.meta.env\<close>: the two settings, each a string or absent.\<close>

record env =
  VITE_SUPABASE_URL :: "string option"
  VITE_SUPABASE_ANON_KEY :: "string option"

text \<open>Truthiness of a value that is a string or \<open>undefined\<close>/\<open>null\<close>.\<close>

fun present :: "string option \<Rightarrow> bool" where
  "present None = False"
| "present (Some s) = (s \<noteq> [])"

definition isSupabaseConfigured :: "env \<Rightarrow> bool" where
  "isSupabaseConfigured e = (present (VITE_SUPABASE_URL e) \<and> present (VITE_SUPABASE_ANON_KEY e))"

text \<open>
  What \<open>await\<close> on a query of the remote client gives: the promise rejects, or it
  resolves to an object whose \<open>data\<close> (or \<open>count\<close>) and \<open>error\<close> fields are
  destructured.
\<close>

datatype 'a reply = Rejected js_error | Reply (reply_data: "'a option") (reply_error: "js_error option")

text \<open>
  The remote store, as far as the services ask it: one field for each query they build,
  holding what the store answers when that query is awaited.
  \<^item> \<open>categories_by_name\<close>: \<open>from('categories').select('*').order('name', {ascending: true})\<close>
  \<^item> \<open>posts_page from to\<close>: \<open>from('posts').select('*, categories (*)')
      .order('published_at', {ascending: false}).range(from, to)\<close>
  \<^item> \<open>post_by_slug slug\<close>: \<open>from('posts').select('*, categories (*)').eq('slug', slug).single()\<close>
  \<^item> \<open>post_views id\<close>: \<open>from('posts').select('views').eq('id', id).single()\<close>
  \<^item> \<open>update_views id n\<close>: \<open>from('posts').update({views: n}).eq('id', id)\<close>
  \<^item> \<open>delete_like post user\<close>: \<open>from('likes').delete().eq('post_id', post).eq('user_id', user)\<close>
  \<^item> \<open>insert_like post user\<close>: \<open>from('likes').insert([{post_id: post, user_id: user}])\<close>
  \<^item> \<open>post_likes id\<close>: \<open>from('posts').select('likes').eq('id', id).single()\<close>
  \<^item> \<open>count_likes post\<close>: \<open>from('likes').select('id', {count: 'exact', head: true})
      .eq('post_id', post)\<close>, the \<open>count\<close> field
  \<^item> \<open>like_row post user\<close>: \<open>from('likes').select('id').eq('post_id', post)
      .eq('user_id', user).maybeSingle()\<close>
  A selected column that is \<open>null\<close> in the row is \<open>None\<close> inside the row.
\<close>

record remote =
  categories_by_name :: "category list reply"
  posts_page :: "int \<Rightarrow> int \<Rightarrow> post list reply"
  post_by_slug :: "string \<Rightarrow> post reply"
  post_views :: "string \<Rightarrow> int option reply"
  update_views :: "string \<Rightarrow> int \<Rightarrow> unit reply"
  delete_like :: "string \<Rightarrow> string \<Rightarrow> unit reply"
  insert_like :: "string \<Rightarrow> string \<Rightarrow> unit reply"
  post_likes :: "string \<Rightarrow> int option reply"
  count_likes :: "string \<Rightarrow> int reply"
  like_row :: "string \<Rightarrow> string \<Rightarrow> string reply"

text \<open>A reply that makes the service take its \<open>catch\<close> branch: a rejection, or an
  \<open>error\<close> field that is set.\<close>

fun failed :: "'a reply \<Rightarrow> bool" where
  "failed (Rejected x) = True"
| "failed (Reply d err) = (err \<noteq> None)"

text \<open>A reply that carries no row.\<close>

fun no_row :: "'a reply \<Rightarrow> bool" where
  "no_row (Rejected x) = True"
| "no_row (Reply d err) = (d = None)"

text \<open>
  The client that \<open>supabase.js\<close> builds when the settings are missing: every operation
  answers \<open>{ error: new Error('Supabase not configured') }\<close>.
\<close>

definition not_configured_error :: js_error where
  "not_configured_error = JsError None ''Supabase not configured''"

definition mock_client :: remote where
  "mock_client =
     \<lparr>categories_by_name = Reply None (Some not_configured_error),
      posts_page = (\<lambda>from to. Reply None (Some not_configured_error)),
      post_by_slug = (\<lambda>slug. Reply None (Some not_configured_error)),
      post_views = (\<lambda>i. Reply None (Some not_configured_error)),
      update_views = (\<lambda>i n. Reply None (Some not_configured_error)),
      delete_like = (\<lambda>p u. Reply None (Some not_configured_error)),
      insert_like = (\<lambda>p u. Reply None (Some not_configured_error)),
      post_likes = (\<lambda>i. Reply None (Some not_configured_error)),
      count_likes = (\<lambda>p. Reply None (Some not_configured_error)),
      like_row = (\<lambda>p u. Reply None (Some not_configured_error))\<rparr>"

subsection \<open>The remote store of the setup script, answering without failure\<close>

text \<open>
  The tables of the SQL setup script, with the parts of it that decide what a query of
  the anonymous client sees:
  \<^item> the policy \<open>"Allow public read on published posts" ON posts FOR SELECT
    USING (published = true)\<close>: a select on \<open>posts\<close> ranges over the published rows
    only;
  \<^item> the policies \<open>USING (true)\<close> on \<open>categories\<close> and \<open>likes\<close>: every row is seen;
  \<^item> \<open>UNIQUE(post_id, user_id)\<close> on \<open>likes\<close>: an insert of a pair that is present is
    refused with SQLSTATE \<open>23505\<close>.
  Text columns are ordered as HOL orders strings (lexicographically by character code);
  timestamps are ISO 8601 strings in UTC, for which that order is the order in time.
\<close>

record like =
  like_id :: string
  like_post_id :: string
  like_user_id :: string

record db =
  categories_tbl :: "category list"
  posts_tbl :: "post list"
  likes_tbl :: "like list"

definition visible_posts :: "db \<Rightarrow> post list" where
  "visible_posts d = filter published (posts_tbl d)"

text \<open>\<open>categories (*)\<close>: the category row the post's \<open>category_id\<close> refers to, or \<open>null\<close>.\<close>

definition with_category :: "db \<Rightarrow> post \<Rightarrow> post" where
  "with_category d p =
     p\<lparr>categories :=
         (case category_id p of
            None \<Rightarrow> None
          | Some cid \<Rightarrow> find (\<lambda>k. cat_id k = cid) (categories_tbl d))\<rparr>"

text \<open>
  \<open>ORDER BY published_at DESC\<close>: later timestamps first, and rows without a timestamp
  before all others (a descending order puts \<open>NULL\<close> first). \<open>desc_before a b\<close> says
  that a row with timestamp \<open>a\<close> may stand before a row with timestamp \<open>b\<close>.
\<close>

fun desc_before :: "string option \<Rightarrow> string option \<Rightarrow> bool" where
  "desc_before None b = True"
| "desc_before (Some a) None = False"
| "desc_before (Some a) (Some b) = (b \<le> a)"

fun insert_desc :: "post \<Rightarrow> post list \<Rightarrow> post list" where
  "insert_desc p [] = [p]"
| "insert_desc p (q # qs) =
     (if desc_before (published_at p) (published_at q) then p # q # qs
      else q # insert_desc p qs)"

definition order_published_at_desc :: "post list \<Rightarrow> post list" where
  "order_published_at_desc ps = foldr insert_desc ps []"

text \<open>\<open>range(from, to)\<close>: the rows with index \<open>from\<close> to \<open>to\<close>, both included, for
  \<open>0 \<le> from\<close> and \<open>from \<le> to + 1\<close>.\<close>

definition range_rows :: "int \<Rightarrow> int \<Rightarrow> 'a list \<Rightarrow> 'a list" where
  "range_rows from to rows = take (nat (to - from + 1)) (drop (nat from) rows)"

text \<open>\<open>single()\<close> wants exactly one row; \<open>maybeSingle()\<close> accepts none.\<close>

definition not_one_row :: js_error where
  "not_one_row = JsError (Some ''PGRST116'') ''JSON object requested, multiple (or no) rows returned''"

fun single :: "'a list \<Rightarrow> 'a reply" where
  "single [x] = Reply (Some x) None"
| "single rows = Reply None (Some not_one_row)"

fun maybeSingle :: "'a list \<Rightarrow> 'a reply" where
  "maybeSingle [] = Reply None None"
| "maybeSingle [x] = Reply (Some x) None"
| "maybeSingle rows = Reply None (Some not_one_row)"

definition likes_of :: "db \<Rightarrow> string \<Rightarrow> like list" where
  "likes_of d post = filter (\<lambda>l. like_post_id l = post) (likes_tbl d)"

definition supabase :: "db \<Rightarrow> remote" where
  "supabase d =
     \<lparr>categories_by_name = Reply (Some (sort_key cat_name (categories_tbl d))) None,
      posts_page = (\<lambda>from to.
         Reply (Some (range_rows from to
           (order_published_at_desc (map (with_category d) (visible_posts d))))) None),
      post_by_slug = (\<lambda>slug.
         single (map (with_category d) (filter (\<lambda>p. post_slug p = slug) (visible_posts d)))),
      post_views = (\<lambda>i.
         single (map (\<lambda>p. Some (views p)) (filter (\<lambda>p. post_id p = i) (visible_posts d)))),
      update_views = (\<lambda>i n. Reply None None),
      delete_like = (\<lambda>p u. Reply None None),
      insert_like = (\<lambda>p u.
         if (p, u) \<in> set (map (\<lambda>l. (like_post_id l, like_user_id l)) (likes_tbl d))
         then Reply None (Some (JsError (Some ''23505'')
                ''duplicate key value violates unique constraint''))
         else Reply None None),
      post_likes = (\<lambda>i.
         single (map (\<lambda>p. Some (likes p)) (filter (\<lambda>p. post_id p = i) (visible_posts d)))),
      count_likes = (\<lambda>p. Reply (Some (int (length (likes_of d p)))) None),
      like_row = (\<lambda>p u.
         maybeSingle (map like_id (filter (\<lambda>l. like_user_id l = u) (likes_of d p))))\<rparr>"

text \<open>
  The same store with the read policy of \<open>posts\<close> absent (the tables created without
  the row level security section of the script): a select on \<open>posts\<close> then ranges over
  every row of the table. The other answers are unchanged.
\<close>

definition supabase_without_policy :: "db \<Rightarrow> remote" where
  "supabase_without_policy d =
     (supabase d)
       \<lparr>posts_page := (\<lambda>from to.
          Reply (Some (range_rows from to
            (order_published_at_desc (map (with_category d) (posts_tbl d))))) None)\<rparr>"

section \<open>The data access services\<close>

text \<open>
  An async function either resolves to a value (\<open>Inr\<close>) or rejects with what was thrown
  (\<open>Inl\<close>). \<open>try { body } catch (error) { handler }\<close> runs the handler on what the body
  threw. \<open>console.warn\<close> and \<open>console.error\<close> have no effect on the result and are
  left out.
\<close>

definition try_catch :: "js_error + 'a \<Rightarrow> (js_error \<Rightarrow> js_error + 'a) \<Rightarrow> js_error + 'a" where
  "try_catch body handler = (case body of Inl error \<Rightarrow> handler error | Inr v \<Rightarrow> Inr v)"

text \<open>\<open>const { data, error } = await query; if (error) throw error\<close>, and then the
  continuation on \<open>data\<close>.\<close>

definition await_or_throw :: "'a reply \<Rightarrow> ('a option \<Rightarrow> js_error + 'b) \<Rightarrow> js_error + 'b" where
  "await_or_throw rep k =
     (case rep of
        Rejected x \<Rightarrow> Inl x
      | Reply d err \<Rightarrow> (case err of Some x \<Rightarrow> Inl x | None \<Rightarrow> k d))"

text \<open>\<open>data || []\<close> on a reply whose data is an array or \<open>null\<close>.\<close>

definition or_empty :: "'a list option \<Rightarrow> 'a list" where
  "or_empty d = (case d of None \<Rightarrow> [] | Some rows \<Rightarrow> rows)"

text \<open>
  \<open>Array.prototype.slice(start, end)\<close> on integers: a negative index counts from the
  end, and both are clamped to the array.
\<close>

definition slice :: "int \<Rightarrow> int \<Rightarrow> 'a list \<Rightarrow> 'a list" where
  "slice start fin xs =
     (let len = int (length xs);
          k = (if start < 0 then max (len + start) 0 else min start len);
          final = (if fin < 0 then max (len + fin) 0 else min fin len)
      in take (nat (final - k)) (drop (nat k) xs))"

subsection \<open>categoriesService\<close>

definition categoriesService_getAll :: "env \<Rightarrow> remote \<Rightarrow> js_error + category list" where
  "categoriesService_getAll e r =
     (if \<not> isSupabaseConfigured e then Inr mockCategories
      else try_catch
             (await_or_throw (categories_by_name r) (\<lambda>d. Inr (or_empty d)))
             (\<lambda>error. Inr mockCategories))"

subsection \<open>postsService\<close>

text \<open>\<open>getPublished(limit = 10, offset = 0)\<close>; an omitted argument is \<open>None\<close>.\<close>

definition postsService_getPublished ::
  "env \<Rightarrow> remote \<Rightarrow> int option \<Rightarrow> int option \<Rightarrow> js_error + post list" where
  "postsService_getPublished e r limit_arg offset_arg =
     (let limit = (case limit_arg of None \<Rightarrow> 10 | Some n \<Rightarrow> n);
          offset = (case offset_arg of None \<Rightarrow> 0 | Some n \<Rightarrow> n)
      in
        if \<not> isSupabaseConfigured e then Inr (slice offset (offset + limit) mockPosts)
        else try_catch
               (await_or_throw (posts_page r offset (offset + limit - 1)) (\<lambda>d. Inr (or_empty d)))
               (\<lambda>error. Inr (slice offset (offset + limit) mockPosts)))"

text \<open>\<open>getBySlug(slug)\<close>; \<open>mockPosts.find(...) || null\<close> is \<open>List.find\<close>, with \<open>None\<close>
  for \<open>null\<close>.\<close>

definition postsService_getBySlug :: "env \<Rightarrow> remote \<Rightarrow> string \<Rightarrow> js_error + post option" where
  "postsService_getBySlug e r slug =
     (if \<not> isSupabaseConfigured e then Inr (find (\<lambda>post. post_slug post = slug) mockPosts)
      else try_catch
             (await_or_throw (post_by_slug r slug) (\<lambda>d. Inr d))
             (\<lambda>error. Inr (find (\<lambda>post. post_slug post = slug) mockPosts)))"

text \<open>
  \<open>incrementViews(postId)\<close>: read the counter, write it back plus one. Reading
  \<open>post.views\<close> of a \<open>null\<close> row throws a \<open>TypeError\<close>, inside the \<open>try\<close>.
\<close>

definition postsService_incrementViews :: "env \<Rightarrow> remote \<Rightarrow> string \<Rightarrow> js_error + bool" where
  "postsService_incrementViews e r postId =
     (if \<not> isSupabaseConfigured e then Inr True
      else try_catch
             (await_or_throw (post_views r postId) (\<lambda>post.
                case post of
                  None \<Rightarrow> Inl (JsError None ''TypeError'')
                | Some v \<Rightarrow>
                    await_or_throw
                      (update_views r postId ((case v of None \<Rightarrow> 0 | Some n \<Rightarrow> n) + 1))
                      (\<lambda>d. Inr True)))
             (\<lambda>error. Inr False))"

section \<open>Browser storage and component state\<close>

text \<open>
  The items the client keeps in Web Storage. A list item holds the JSON text of an array
  of post ids, written by \<open>setItem(key, JSON.stringify(list))\<close>; \<open>Unreadable\<close> is text
  that \<open>JSON.parse\<close> rejects. Reading and writing an item succeed.
  A field that is \<open>None\<close> is a key that \<open>getItem\<close> answers with \<open>null\<close> (or with
  the empty text, which \<open>|| '[]'\<close> treats alike). Text that parses to something other
  than an array of ids is not written by the application and is not modelled.

  The same record carries the React state of the component that runs a flow (\<open>liked\<close>,
  \<open>likeCount\<close>, \<open>viewCount\<close>; \<open>toast\<close> of the post page; \<open>viewed\<close> of the
  engagement hook) and the list of post ids \<open>postsService.incrementViews\<close> has been
  called with.
\<close>

datatype item = Unreadable | Ids "string list"

record client =
  session_viewedPosts :: "item option"
  local_likedPosts :: "item option"
  local_blog_guest_id :: "string option"
  liked :: bool
  viewed :: bool
  likeCount :: int
  viewCount :: int
  toast :: "string option"
  incrementViews_calls :: "string list"

text \<open>\<open>JSON.parse(storage.getItem(key) || '[]')\<close>.\<close>

definition parse_ids :: "item option \<Rightarrow> js_error + string list" where
  "parse_ids it =
     (case it of
        None \<Rightarrow> Inr []
      | Some Unreadable \<Rightarrow> Inl (JsError None ''SyntaxError'')
      | Some (Ids xs) \<Rightarrow> Inr xs)"

text \<open>
  \<open>signInAnonymously()\<close> of \<open>supabase.js\<close>: the guest id kept under
  \<open>blog_guest_id\<close>, created with \<open>crypto.randomUUID()\<close> when there is none.
  \<open>randomUUID\<close> is what that call gives: an id, or an exception (it is missing outside
  a secure context), which the function catches. The result is \<open>authData?.user?.id\<close>.
\<close>

definition signInAnonymously :: "env \<Rightarrow> js_error + string \<Rightarrow> client \<Rightarrow> string option \<times> client" where
  "signInAnonymously e randomUUID c =
     (if \<not> isSupabaseConfigured e then (None, c)
      else if present (local_blog_guest_id c) then (local_blog_guest_id c, c)
      else (case randomUUID of
              Inl error \<Rightarrow> (None, c)
            | Inr guestId \<Rightarrow> (Some guestId, c\<lparr>local_blog_guest_id := Some guestId\<rparr>)))"

section \<open>engagementService\<close>

text \<open>The result of \<open>toggleLike\<close>: a number, or \<open>true\<close>.\<close>

datatype like_result = Count int | JustTrue

text \<open>
  \<open>toggleLike(postId, isLiked)\<close>. \<open>write_like\<close> is the delete or the insert, with the
  unique violation \<open>23505\<close> of an insert ignored; \<open>read_count\<close> is the part after the
  write: \<open>posts.likes\<close> first (\<open>updated.likes ?? true\<close>), then the count of rows,
  then \<open>true\<close>. All of it stands inside \<open>try\<close>, whose handler returns \<open>true\<close>.
\<close>

definition write_like :: "remote \<Rightarrow> string \<Rightarrow> string \<Rightarrow> bool \<Rightarrow> js_error + unit" where
  "write_like r postId userId isLiked =
     (if isLiked then
        (case delete_like r postId userId of
           Rejected x \<Rightarrow> Inl x
         | Reply d delError \<Rightarrow> (case delError of Some x \<Rightarrow> Inl x | None \<Rightarrow> Inr ()))
      else
        (case insert_like r postId userId of
           Rejected x \<Rightarrow> Inl x
         | Reply d insError \<Rightarrow>
             (case insError of
                Some x \<Rightarrow> if err_code x \<noteq> Some ''23505'' then Inl x else Inr ()
              | None \<Rightarrow> Inr ())))"

definition read_count :: "remote \<Rightarrow> string \<Rightarrow> js_error + like_result" where
  "read_count r postId =
     (case post_likes r postId of
        Rejected x \<Rightarrow> Inl x
      | Reply updated fetchUpdatedError \<Rightarrow>
          if fetchUpdatedError = None \<and> updated \<noteq> None then
            Inr (case the updated of Some n \<Rightarrow> Count n | None \<Rightarrow> JustTrue)
          else
            (case count_likes r postId of
               Rejected x \<Rightarrow> Inl x
             | Reply count countError \<Rightarrow>
                 if countError = None \<and> count \<noteq> None then Inr (Count (the count))
                 else Inr JustTrue))"

definition engagementService_toggleLike ::
  "env \<Rightarrow> remote \<Rightarrow> js_error + string \<Rightarrow> string \<Rightarrow> bool \<Rightarrow> client \<Rightarrow>
   (js_error + like_result) \<times> client" where
  "engagementService_toggleLike e r randomUUID postId isLiked c =
     (if \<not> isSupabaseConfigured e then (Inr JustTrue, c)
      else
        let (userId, c1) = signInAnonymously e randomUUID c in
        (try_catch
           (if \<not> present userId then Inr JustTrue
            else
              (case write_like r postId (the userId) isLiked of
                 Inl x \<Rightarrow> Inl x
               | Inr u \<Rightarrow> read_count r postId))
           (\<lambda>error. Inr JustTrue),
         c1))"

text \<open>
  \<open>getLikes(postId)\<close>. Without configuration the result is
  \<open>Math.floor(Math.random() * 50)\<close>. \<open>random_product\<close> is the number that
  \<open>Math.random() * 50\<close> evaluates to: the product as floating point arithmetic gives
  it, which the model takes as it is and does not compute. \<open>Math.floor\<close> of that number
  is exact. \<open>data.likes || 0\<close> reads a \<open>null\<close> counter as \<open>0\<close>, and a count that is
  not a number gives \<open>0\<close>.
\<close>

definition engagementService_getLikes :: "env \<Rightarrow> remote \<Rightarrow> rat \<Rightarrow> string \<Rightarrow> js_error + int" where
  "engagementService_getLikes e r random_product postId =
     (if \<not> isSupabaseConfigured e then Inr \<lfloor>random_product\<rfloor>
      else try_catch
             (case post_likes r postId of
                Rejected x \<Rightarrow> Inl x
              | Reply d error \<Rightarrow>
                  if error = None \<and> d \<noteq> None then
                    Inr (case the d of Some n \<Rightarrow> n | None \<Rightarrow> 0)
                  else
                    await_or_throw (count_likes r postId)
                      (\<lambda>count. Inr (case count of Some n \<Rightarrow> n | None \<Rightarrow> 0)))
             (\<lambda>error. Inr 0))"

text \<open>
  \<open>hasLiked(postId, userId)\<close>. An argument may be missing (\<open>None\<close>) or empty, which
  \<open>!postId\<close> and \<open>!userId\<close> test. The local branch has its own \<open>try\<close>, whose handler
  returns \<open>false\<close>; so has the remote branch.
\<close>

definition engagementService_hasLiked ::
  "env \<Rightarrow> remote \<Rightarrow> string option \<Rightarrow> string option \<Rightarrow> client \<Rightarrow> js_error + bool" where
  "engagementService_hasLiked e r postId userId c =
     (if \<not> isSupabaseConfigured e \<or> \<not> present postId \<or> \<not> present userId then
        try_catch
          (case parse_ids (local_likedPosts c) of
             Inl x \<Rightarrow> Inl x
           | Inr likedPosts \<Rightarrow> Inr (postId \<in> Some ` set likedPosts))
          (\<lambda>error. Inr False)
      else
        try_catch
          (await_or_throw (like_row r (the postId) (the userId)) (\<lambda>d. Inr (d \<noteq> None)))
          (\<lambda>error. Inr False))"

section \<open>The flows of the post page and of the engagement hook\<close>

text \<open>
  View tracking in \<open>fetchPost\<close> of the post page, for the post that was loaded. An
  exception (\<open>Inl\<close>) leaves the block for the \<open>catch\<close> of \<open>fetchPost\<close>, which sets the
  error message and touches neither the storage nor the counters.
\<close>

definition PostPage_trackView :: "env \<Rightarrow> remote \<Rightarrow> string \<Rightarrow> client \<Rightarrow> js_error + client" where
  "PostPage_trackView e r postId c =
     (case parse_ids (session_viewedPosts c) of
        Inl x \<Rightarrow> Inl x
      | Inr viewedPosts \<Rightarrow>
          if postId \<notin> set viewedPosts then
            (case postsService_incrementViews e r postId of
               Inl x \<Rightarrow> Inl x
             | Inr ok \<Rightarrow>
                 Inr (c\<lparr>incrementViews_calls := incrementViews_calls c @ [postId],
                        viewCount := viewCount c + 1,
                        session_viewedPosts := Some (Ids (viewedPosts @ [postId]))\<rparr>))
          else Inr c)"

text \<open>The state a flow leaves behind: the one it resolved to, or, when it threw before
  changing anything, the one it started in.\<close>

definition state_after :: "client \<Rightarrow> js_error + client \<Rightarrow> client" where
  "state_after c res = (case res of Inl x \<Rightarrow> c | Inr c' \<Rightarrow> c')"

text \<open>
  \<open>handleLike\<close> of the post page. The optimistic update of the list and of the state
  comes first; then \<open>engagementService.toggleLike\<close> is called, and its outcome handled:
  a number replaces the count (\<open>then\<close>), a rejection sets the toast (\<open>catch\<close>).
  \<open>JSON.parse\<close> throwing leaves everything as it was (\<open>catch\<close> of \<open>handleLike\<close>).
\<close>

definition PostPage_handleLike ::
  "env \<Rightarrow> remote \<Rightarrow> js_error + string \<Rightarrow> string \<Rightarrow> client \<Rightarrow> client" where
  "PostPage_handleLike e r randomUUID postId c =
     (let isCurrentlyLiked = liked c in
      case parse_ids (local_likedPosts c) of
        Inl error \<Rightarrow> c
      | Inr likedPosts \<Rightarrow>
          let c1 =
                (if isCurrentlyLiked then
                   c\<lparr>local_likedPosts := Some (Ids (filter (\<lambda>i. i \<noteq> postId) likedPosts)),
                     liked := False,
                     likeCount := max 0 (likeCount c - 1)\<rparr>
                 else
                   (if postId \<notin> set likedPosts
                    then c\<lparr>local_likedPosts := Some (Ids (likedPosts @ [postId]))\<rparr>
                    else c)
                   \<lparr>liked := True, likeCount := likeCount c + 1\<rparr>);
              (outcome, c2) = engagementService_toggleLike e r randomUUID postId isCurrentlyLiked c1
          in
            (case outcome of
               Inr (Count maybeCount) \<Rightarrow> c2\<lparr>likeCount := maybeCount\<rparr>
             | Inr JustTrue \<Rightarrow> c2
             | Inl err \<Rightarrow>
                 c2\<lparr>toast := Some ''Unable to save like right now. Your change may not persist.''\<rparr>))"

text \<open>
  The hook \<open>usePostEngagement(post)\<close>.
  \<^item> Mounting it gives the initial state of its four \<open>useState\<close> calls: the counters
    of the post, \<open>liked\<close> and \<open>viewed\<close> both \<open>false\<close>. The browser storage is what it
    was.
  \<^item> Its effect, run after the first render and when the post changes, reads both
    lists and sets the four states; \<open>JSON.parse\<close> throwing there is not caught.
  \<^item> \<open>trackView\<close> is made by \<open>useCallback(..., [post, viewed])\<close>: the callback holds
    the value \<open>viewed\<close> had in the render that made it, \<open>viewed_at_render\<close>, and
    tests that value, not the state at the time of the call and not the session list.
    It catches what its body throws, keeping the state changes made before.
  \<^item> \<open>toggleLike\<close> is taken as the callback of the latest render, which holds the
    \<open>liked\<close> of the state it is called in.
\<close>

definition usePostEngagement_mount :: "post \<Rightarrow> client \<Rightarrow> client" where
  "usePostEngagement_mount p c =
     c\<lparr>viewCount := views p, likeCount := likes p, liked := False, viewed := False\<rparr>"

definition usePostEngagement_effect :: "post \<Rightarrow> client \<Rightarrow> js_error + client" where
  "usePostEngagement_effect p c =
     (case parse_ids (session_viewedPosts c) of
        Inl x \<Rightarrow> Inl x
      | Inr viewedPosts \<Rightarrow>
          (case parse_ids (local_likedPosts c) of
             Inl x \<Rightarrow> Inl x
           | Inr likedPosts \<Rightarrow>
               Inr (c\<lparr>viewed := (post_id p \<in> set viewedPosts),
                      liked := (post_id p \<in> set likedPosts),
                      viewCount := views p,
                      likeCount := likes p\<rparr>)))"

definition usePostEngagement_trackView ::
  "env \<Rightarrow> remote \<Rightarrow> post \<Rightarrow> bool \<Rightarrow> client \<Rightarrow> client" where
  "usePostEngagement_trackView e r p viewed_at_render c =
     (if viewed_at_render then c
      else
        (case postsService_incrementViews e r (post_id p) of
           Inl error \<Rightarrow> c\<lparr>incrementViews_calls := incrementViews_calls c @ [post_id p]\<rparr>
         | Inr ok \<Rightarrow>
             let c1 = c\<lparr>incrementViews_calls := incrementViews_calls c @ [post_id p],
                        viewCount := viewCount c + 1,
                        viewed := True\<rparr>
             in (case parse_ids (session_viewedPosts c1) of
                   Inl error \<Rightarrow> c1
                 | Inr viewedPosts \<Rightarrow>
                     c1\<lparr>session_viewedPosts := Some (Ids (viewedPosts @ [post_id p]))\<rparr>)))"

definition usePostEngagement_toggleLike ::
  "env \<Rightarrow> remote \<Rightarrow> js_error + string \<Rightarrow> post \<Rightarrow> client \<Rightarrow> client" where
  "usePostEngagement_toggleLike e r randomUUID p c =
     (let (newLikeCount, c1) = engagementService_toggleLike e r randomUUID (post_id p) (liked c) c
      in case newLikeCount of
           Inl error \<Rightarrow> c1
         | Inr n \<Rightarrow>
             (case parse_ids (local_likedPosts c1) of
                Inl error \<Rightarrow> c1
              | Inr likedPosts \<Rightarrow>
                  if liked c then
                    c1\<lparr>local_likedPosts := Some (Ids (filter (\<lambda>i. i \<noteq> post_id p) likedPosts)),
                       liked := False,
                       likeCount := max 0 (likeCount c1 - 1)\<rparr>
                  else
                    c1\<lparr>local_likedPosts := Some (Ids (likedPosts @ [post_id p])),
                       liked := True,
                       likeCount := likeCount c1 + 1\<rparr>))"

section \<open>Predicates of the specification\<close>

text \<open>A list of posts is ordered by publish timestamp, descending.\<close>

definition newest_first :: "post list \<Rightarrow> bool" where
  "newest_first ps = sorted_wrt (\<lambda>p q. desc_before (published_at p) (published_at q)) ps"

text \<open>
  A post carries its joined category: without a \<open>category_id\<close>, or with one that no
  category has, it carries none; otherwise it carries the id, name and slug of the
  category with that id.
\<close>

definition carries_category :: "category list \<Rightarrow> post \<Rightarrow> bool" where
  "carries_category cats p =
     (case category_id p of
        None \<Rightarrow> categories p = None
      | Some cid \<Rightarrow>
          (case find (\<lambda>k. cat_id k = cid) cats of
             None \<Rightarrow> categories p = None
           | Some k \<Rightarrow>
               (case categories p of
                  None \<Rightarrow> False
                | Some k' \<Rightarrow>
                    cat_id k' = cat_id k \<and> cat_name k' = cat_name k \<and> cat_slug k' = cat_slug k)))"

text \<open>A page of published posts: only published ones, newest first, each with its
  category.\<close>

definition published_page :: "category list \<Rightarrow> post list \<Rightarrow> bool" where
  "published_page cats ps =
     (list_all published ps \<and> newest_first ps \<and> list_all (carries_category cats) ps)"

section \<open>Sample environments\<close>

text \<open>Settings absent and settings present; a remote store that cannot be reached (every
  request rejects); and a small database: two categories, three posts of which one is a
  draft, two likes of the first post.\<close>

definition offline_env :: env where
  "offline_env = \<lparr>VITE_SUPABASE_URL = None, VITE_SUPABASE_ANON_KEY = None\<rparr>"

definition online_env :: env where
  "online_env = \<lparr>VITE_SUPABASE_URL = Some ''https://blog.example.supabase.co'',
                  VITE_SUPABASE_ANON_KEY = Some ''anon-key''\<rparr>"

definition network_error :: js_error where
  "network_error = JsError None ''Failed to fetch''"

definition unreachable :: remote where
  "unreachable =
     \<lparr>categories_by_name = Rejected network_error,
      posts_page = (\<lambda>from to. Rejected network_error),
      post_by_slug = (\<lambda>slug. Rejected network_error),
      post_views = (\<lambda>i. Rejected network_error),
      update_views = (\<lambda>i n. Rejected network_error),
      delete_like = (\<lambda>p u. Rejected network_error),
      insert_like = (\<lambda>p u. Rejected network_error),
      post_likes = (\<lambda>i. Rejected network_error),
      count_likes = (\<lambda>p. Rejected network_error),
      like_row = (\<lambda>p u. Rejected network_error)\<rparr>"

definition sample_tech :: category where
  "sample_tech = \<lparr>cat_id = ''c-tech'', cat_name = ''Technology'', cat_slug = ''technology'',
                   cat_created_at = Some ''2024-01-01T00:00:00Z''\<rparr>"

definition sample_design :: category where
  "sample_design = \<lparr>cat_id = ''c-design'', cat_name = ''Design'', cat_slug = ''design'',
                     cat_created_at = Some ''2024-01-02T00:00:00Z''\<rparr>"

definition sample_first :: post where
  "sample_first =
     \<lparr>post_id = ''p-first'', title = ''First post'', post_slug = ''first-post'',
      excerpt = None, cover_path = None, category_id = Some ''c-tech'', published = True,
      published_at = Some ''2024-09-01T12:00:00Z'', views = 10, likes = 3, categories = None\<rparr>"

definition sample_draft :: post where
  "sample_draft =
     \<lparr>post_id = ''p-draft'', title = ''A draft'', post_slug = ''a-draft'',
      excerpt = None, cover_path = None, category_id = Some ''c-design'', published = False,
      published_at = Some ''2024-09-20T12:00:00Z'', views = 0, likes = 0, categories = None\<rparr>"

definition sample_second :: post where
  "sample_second =
     \<lparr>post_id = ''p-second'', title = ''Second post'', post_slug = ''second-post'',
      excerpt = None, cover_path = None, category_id = None, published = True,
      published_at = Some ''2024-09-10T12:00:00Z'', views = 3, likes = 0, categories = None\<rparr>"

definition sample_db :: db where
  "sample_db =
     \<lparr>categories_tbl = [sample_tech, sample_design],
      posts_tbl = [sample_first, sample_draft, sample_second],
      likes_tbl = [\<lparr>like_id = ''l-1'', like_post_id = ''p-first'', like_user_id = ''guest-1''\<rparr>,
                   \<lparr>like_id = ''l-2'', like_post_id = ''p-first'', like_user_id = ''guest-2''\<rparr>]\<rparr>"

text \<open>A browser with nothing stored and a component in its initial state.\<close>

definition fresh_client :: client where
  "fresh_client =
     \<lparr>session_viewedPosts = None, local_likedPosts = None, local_blog_guest_id = None,
      liked = False, viewed = False, likeCount = 0, viewCount = 0, toast = None,
      incrementViews_calls = []\<rparr>"

text \<open>
  Two visits of the first post of the sample database in one browser session, through a
  component that mounts the hook and calls the \<open>trackView\<close> of its first render. The
  second visit mounts the hook anew on the storage the first visit left; its effect has
  run when the callback of the first render is called.
\<close>

definition sample_first_visit :: client where
  "sample_first_visit =
     (let m = usePostEngagement_mount sample_first fresh_client;
          m' = state_after m (usePostEngagement_effect sample_first m)
      in usePostEngagement_trackView online_env (supabase sample_db) sample_first (viewed m) m')"

definition sample_second_visit :: client where
  "sample_second_visit =
     (let m = usePostEngagement_mount sample_first sample_first_visit;
          m' = state_after m (usePostEngagement_effect sample_first m)
      in usePostEngagement_trackView online_env (supabase sample_db) sample_first (viewed m) m')"

section \<open>Properties of the cache\<close>

subsection \<open>The two maps keep the same keys\<close>

lemma keys_delete: "set (map fst (AList.delete k xs)) = set (map fst xs) - {k}"
  by (induction xs) auto

lemma keys_update: "set (map fst (AList.update k v xs)) = insert k (set (map fst xs))"
  by (induction xs) auto

lemma cache_inv_empty: "cache_inv empty_cache"
  by (simp add: cache_inv_def empty_cache_def)

lemma cache_inv_delete_entry: "cache_inv c \<Longrightarrow> cache_inv (delete_entry key c)"
  by (simp add: cache_inv_def delete_entry_def keys_delete del: set_map)

lemma cache_inv_cache_set: "cache_inv c \<Longrightarrow> cache_inv (cache_set key d now c)"
  by (simp add: cache_inv_def cache_set_def keys_update del: set_map)

lemma cache_inv_cache_get: "cache_inv c \<Longrightarrow> cache_inv (snd (cache_get key maxAge now c))"
  by (simp add: cache_get_def cache_inv_delete_entry Let_def split: option.splits)

lemma cache_inv_clear: "cache_inv (clear c)"
  by (simp add: cache_inv_def clear_def)

lemma cache_inv_fold_delete: "cache_inv c \<Longrightarrow> cache_inv (fold delete_entry ks c)"
  by (induction ks arbitrary: c) (simp_all add: cache_inv_delete_entry)

lemma cache_inv_invalidate: "cache_inv c \<Longrightarrow> cache_inv (invalidate p b c)"
  by (simp add: invalidate_def Let_def cache_inv_fold_delete cache_inv_delete_entry)

lemma cache_inv_createCacheableFetch:
  assumes "cache_inv (the_cache w)"
  shows "cache_inv (the_cache (snd (createCacheableFetch f key m fb ser args t t' w)))"
proof (cases "ser args")
  case (Inl e)
  with assms show ?thesis by (simp add: createCacheableFetch_def)
next
  case (Inr s)
  obtain v c1 where g: "cache_get (key @ '':'' @ s) (default_maxAge m) t (the_cache w) = (v, c1)"
    by (cases "cache_get (key @ '':'' @ s) (default_maxAge m) t (the_cache w)")
  with assms have "cache_inv c1"
    using cache_inv_cache_get[of "the_cache w" "key @ '':'' @ s" "default_maxAge m" t] by simp
  with Inr g show ?thesis
    by (simp add: createCacheableFetch_def cache_inv_cache_set split: sum.splits)
qed

subsection \<open>Prefix invalidation\<close>

lemma filter_delete:
  "filter (\<lambda>e. fst e \<notin> set ks) (AList.delete k xs) = filter (\<lambda>e. fst e \<notin> set (k # ks)) xs"
  by (induction xs) auto

lemma fold_delete_entry:
  "fold delete_entry ks c =
     c\<lparr>data := filter (\<lambda>e. fst e \<notin> set ks) (data c),
       timestamps := filter (\<lambda>e. fst e \<notin> set ks) (timestamps c)\<rparr>"
proof (induction ks arbitrary: c)
  case Nil
  show ?case by simp
next
  case (Cons k ks)
  have "fold delete_entry (k # ks) c = fold delete_entry ks (delete_entry k c)"
    by simp
  also have "\<dots> = (delete_entry k c)
      \<lparr>data := filter (\<lambda>e. fst e \<notin> set ks) (data (delete_entry k c)),
       timestamps := filter (\<lambda>e. fst e \<notin> set ks) (timestamps (delete_entry k c))\<rparr>"
    by (rule Cons.IH)
  also have "\<dots> = c\<lparr>data := filter (\<lambda>e. fst e \<notin> set (k # ks)) (data c),
       timestamps := filter (\<lambda>e. fst e \<notin> set (k # ks)) (timestamps c)\<rparr>"
    by (simp add: delete_entry_def filter_delete del: set_simps)
  finally show ?case .
qed

lemma invalidate_prefix_data:
  "data (invalidate p True c) = filter (\<lambda>e. \<not> startsWith (fst e) p) (data c)"
  unfolding invalidate_def Let_def fold_delete_entry
  by (auto intro!: filter_cong simp: image_iff)

lemma invalidate_prefix_timestamps:
  assumes "cache_inv c"
  shows "timestamps (invalidate p True c) =
         filter (\<lambda>e. \<not> startsWith (fst e) p) (timestamps c)"
proof -
  have "(fst e \<notin> set (map fst (filter (\<lambda>(key, _). startsWith key p) (data c))))
        = (\<not> startsWith (fst e) p)"
    if "e \<in> set (timestamps c)" for e
  proof -
    from that assms have "fst e \<in> set (map fst (data c))"
      unfolding cache_inv_def by (metis image_eqI set_map)
    then show ?thesis by (auto simp: image_iff)
  qed
  then show ?thesis
    unfolding invalidate_def Let_def fold_delete_entry
    by (auto intro!: filter_cong)
qed

lemma map_of_filter_not_prefix:
  "map_of (filter (\<lambda>e. \<not> startsWith (fst e) p) xs) k
     = (if startsWith k p then None else map_of xs k)"
  by (induction xs) auto

text \<open>
  C3. Prefix invalidation removes exactly the entries whose key starts with the prefix.
  In every state of the cache (the two maps holding the same keys, which every operation
  preserves), \<open>invalidateCache(prefix, true)\<close> leaves in the payload map and in the
  timestamp map exactly the entries whose key does not start with the prefix, in their
  old order and with their old contents. So a key that starts with the prefix has
  neither payload nor timestamp afterwards, and a key that does not has the payload and
  the timestamp it had.
\<close>

theorem invalidateCache_prefix_exact:
  assumes "cache_inv c"
  shows "data (invalidateCache p True c) = filter (\<lambda>e. \<not> startsWith (fst e) p) (data c)
       \<and> timestamps (invalidateCache p True c)
           = filter (\<lambda>e. \<not> startsWith (fst e) p) (timestamps c)
       \<and> (\<forall>key. startsWith key p \<longrightarrow>
             map_of (data (invalidateCache p True c)) key = None
           \<and> map_of (timestamps (invalidateCache p True c)) key = None)
       \<and> (\<forall>key. \<not> startsWith key p \<longrightarrow>
             map_of (data (invalidateCache p True c)) key = map_of (data c) key
           \<and> map_of (timestamps (invalidateCache p True c)) key = map_of (timestamps c) key)"
  using invalidate_prefix_timestamps[OF assms, of p] invalidate_prefix_data[of p c]
  by (simp add: invalidateCache_def map_of_filter_not_prefix)

text \<open>The scenario of two cached pages of published posts and one cached category list:
  invalidating the prefix \<open>posts:published\<close> leaves the category list alone.\<close>

theorem invalidateCache_prefix_exact_witness:
  "cache_inv
     \<lparr>data = [(''posts:published:[6,0]'', JArr []), (''categories:all:[]'', JArr []),
              (''posts:published:[6,6]'', JArr [])],
      timestamps = [(''posts:published:[6,0]'', 1000), (''categories:all:[]'', 1500),
              (''posts:published:[6,6]'', 2000)]\<rparr>
   \<and> invalidateCache ''posts:published'' True
     \<lparr>data = [(''posts:published:[6,0]'', JArr []), (''categories:all:[]'', JArr []),
              (''posts:published:[6,6]'', JArr [])],
      timestamps = [(''posts:published:[6,0]'', 1000), (''categories:all:[]'', 1500),
              (''posts:published:[6,6]'', 2000)]\<rparr>
     = \<lparr>data = [(''categories:all:[]'', JArr [])], timestamps = [(''categories:all:[]'', 1500)]\<rparr>"
proof -
  let ?c = "\<lparr>data = [(''posts:published:[6,0]'', JArr []), (''categories:all:[]'', JArr []),
              (''posts:published:[6,6]'', JArr [])],
      timestamps = [(''posts:published:[6,0]'', 1000), (''categories:all:[]'', 1500),
              (''posts:published:[6,6]'', 2000)]\<rparr>"
  have inv: "cache_inv ?c"
    by (simp add: cache_inv_def insert_commute)
  from invalidateCache_prefix_exact[OF inv, of "''posts:published''"]
  have "data (invalidateCache ''posts:published'' True ?c) = [(''categories:all:[]'', JArr [])]"
    and "timestamps (invalidateCache ''posts:published'' True ?c) = [(''categories:all:[]'', 1500)]"
    by (simp_all add: startsWith_def)
  with inv show ?thesis
    by (cases "invalidateCache ''posts:published'' True ?c") simp
qed

subsection \<open>Repeated calls of a cacheable fetch\<close>

lemma cache_get_after_set_live:
  assumes "t \<noteq> 0" "now - t \<le> maxAge"
  shows "cache_get k maxAge now (cache_set k v t c) = (v, cache_set k v t c)"
  using assms by (simp add: cache_get_def cache_set_def update_conv')

lemma cache_get_after_set_stale:
  assumes "t \<noteq> 0" "maxAge < now - t"
  shows "cache_get k maxAge now (cache_set k v t c)
         = (JNull, delete_entry k (cache_set k v t c))"
  using assms by (simp add: cache_get_def cache_set_def update_conv')

lemma cache_get_after_set_not_served:
  assumes "\<not> truthy v \<or> t = 0"
  shows "\<not> truthy (fst (cache_get k maxAge now (cache_set k v t c)))"
  using assms by (auto simp: cache_get_def cache_set_def update_conv' Let_def)

lemma first_call_stores:
  assumes "createCacheableFetch f1 key cacheMaxAge fb ser args t1 t1' w0 = (r1, w1)"
    and "fetch_log w1 = fetch_log w0 @ [args]"
    and "f1 args = Inr v"
  shows "\<exists>s c. ser args = Inr s \<and> the_cache w1 = cache_set (key @ '':'' @ s) v t1' c"
  using assms
  by (auto simp: createCacheableFetch_def Let_def split: sum.splits prod.splits if_splits)

lemma fetched_again:
  assumes "ser args = Inr s"
    and "\<not> truthy (fst (cache_get (key @ '':'' @ s) (default_maxAge cacheMaxAge) t2 (the_cache w1)))"
    and "createCacheableFetch f2 key cacheMaxAge fb ser args t2 t2' w1 = (r2, w2)"
  shows "fetch_log w2 = fetch_log w1 @ [args]
       \<and> r2 = (case f2 args of Inr d \<Rightarrow> Inr d | Inl e \<Rightarrow> on_error fb args e)"
  using assms
  by (auto simp: createCacheableFetch_def Let_def split: sum.splits prod.splits)

text \<open>
  C1, as the code has it. Two calls of a wrapped fetch with the same arguments, the
  first of which invoked \<open>fetchFn\<close> and stored its result \<open>v\<close> at time \<open>t1'\<close>; the
  second reads the clock at \<open>t2\<close>.
  \<^item> If \<open>v\<close> is a truthy value, the timestamp is not \<open>0\<close> and the entry is at most
    \<open>maxAge\<close> old, the second call returns \<open>v\<close>, does not invoke \<open>fetchFn\<close>, and
    changes nothing.
  \<^item> If \<open>v\<close> is truthy, the timestamp is not \<open>0\<close> and the entry is older, the second
    call invokes \<open>fetchFn\<close> again, and what it returns is the outcome of that fetch
    (or of the fallback, or the error), whatever the stale entry was.
  \<^item> If \<open>v\<close> is not truthy (\<open>null\<close>, \<open>undefined\<close>, \<open>false\<close>, \<open>0\<close>, the empty
    string), or the timestamp is \<open>0\<close>, the second call invokes \<open>fetchFn\<close> again
    however recent the entry is: the wrapper serves a cached value only under
    \<open>if (cachedData)\<close>, and \<open>cache.get\<close> takes the timestamp \<open>0\<close> for a missing one.
\<close>

theorem cacheable_fetch_twice:
  assumes first: "createCacheableFetch f1 key cacheMaxAge fb ser args t1 t1' w0 = (r1, w1)"
    and fetched: "fetch_log w1 = fetch_log w0 @ [args]"
    and stored: "f1 args = Inr v"
    and second: "createCacheableFetch f2 key cacheMaxAge fb ser args t2 t2' w1 = (r2, w2)"
  shows "(truthy v \<and> t1' \<noteq> 0 \<and> t2 - t1' \<le> default_maxAge cacheMaxAge \<longrightarrow>
            r2 = Inr v \<and> fetch_log w2 = fetch_log w1 \<and> w2 = w1) \<and>
         (truthy v \<and> t1' \<noteq> 0 \<and> default_maxAge cacheMaxAge < t2 - t1' \<longrightarrow>
            fetch_log w2 = fetch_log w1 @ [args] \<and>
            r2 = (case f2 args of Inr d \<Rightarrow> Inr d | Inl e \<Rightarrow> on_error fb args e)) \<and>
         (\<not> truthy v \<or> t1' = 0 \<longrightarrow>
            fetch_log w2 = fetch_log w1 @ [args] \<and>
            r2 = (case f2 args of Inr d \<Rightarrow> Inr d | Inl e \<Rightarrow> on_error fb args e))"
proof -
  from first_call_stores[OF first fetched stored] obtain s c
    where s: "ser args = Inr s" and c: "the_cache w1 = cache_set (key @ '':'' @ s) v t1' c"
    by blast
  have live: "r2 = Inr v \<and> fetch_log w2 = fetch_log w1 \<and> w2 = w1"
    if "truthy v" "t1' \<noteq> 0" "t2 - t1' \<le> default_maxAge cacheMaxAge"
  proof -
    from that have "cache_get (key @ '':'' @ s) (default_maxAge cacheMaxAge) t2 (the_cache w1)
                 = (v, the_cache w1)"
      using c by (simp add: cache_get_after_set_live)
    with second s that show ?thesis
      by (simp add: createCacheableFetch_def Let_def)
  qed
  have stale: "fetch_log w2 = fetch_log w1 @ [args] \<and>
            r2 = (case f2 args of Inr d \<Rightarrow> Inr d | Inl e \<Rightarrow> on_error fb args e)"
    if "t1' \<noteq> 0" "default_maxAge cacheMaxAge < t2 - t1'"
  proof -
    from that have "cache_get (key @ '':'' @ s) (default_maxAge cacheMaxAge) t2 (the_cache w1)
                 = (JNull, delete_entry (key @ '':'' @ s) (the_cache w1))"
      using c by (simp add: cache_get_after_set_stale)
    then have "\<not> truthy (fst (cache_get (key @ '':'' @ s) (default_maxAge cacheMaxAge) t2
                             (the_cache w1)))"
      by simp
    from fetched_again[OF s this second] show ?thesis .
  qed
  have falsy: "fetch_log w2 = fetch_log w1 @ [args] \<and>
            r2 = (case f2 args of Inr d \<Rightarrow> Inr d | Inl e \<Rightarrow> on_error fb args e)"
    if "\<not> truthy v \<or> t1' = 0"
  proof -
    from that have "\<not> truthy (fst (cache_get (key @ '':'' @ s) (default_maxAge cacheMaxAge) t2
                             (the_cache w1)))"
      using c by (simp add: cache_get_after_set_not_served)
    from fetched_again[OF s this second] show ?thesis .
  qed
  from live stale falsy show ?thesis by blast
qed

text \<open>An instance: a post fetched by slug at time 1000 and stored; asked again at time
  2000 it is served from the cache, and asked again at time 70000 (more than 60000
  later) it is fetched anew. A like count of \<open>0\<close> stored at time 1000 is fetched again
  at time 2000.\<close>

theorem cacheable_fetch_twice_witness:
  "createCacheableFetch (\<lambda>slug. Inr (JObj [(''slug'', JStr slug)])) ''posts:bySlug''
       (Some 60000) None Inr ''hello'' 1000 1000 initial_world
     = (Inr (JObj [(''slug'', JStr ''hello'')]),
        \<lparr>the_cache = \<lparr>data = [(''posts:bySlug:hello'', JObj [(''slug'', JStr ''hello'')])],
                      timestamps = [(''posts:bySlug:hello'', 1000)]\<rparr>,
         fetch_log = [''hello'']\<rparr>)
   \<and> fst (createCacheableFetch (\<lambda>slug. Inr JNull) ''posts:bySlug'' (Some 60000) None Inr
         ''hello'' 2000 2000
         \<lparr>the_cache = \<lparr>data = [(''posts:bySlug:hello'', JObj [(''slug'', JStr ''hello'')])],
                      timestamps = [(''posts:bySlug:hello'', 1000)]\<rparr>,
          fetch_log = [''hello'']\<rparr>)
     = Inr (JObj [(''slug'', JStr ''hello'')])
   \<and> fetch_log (snd (createCacheableFetch (\<lambda>slug. Inr JNull) ''posts:bySlug'' (Some 60000)
         None Inr ''hello'' 2000 2000
         \<lparr>the_cache = \<lparr>data = [(''posts:bySlug:hello'', JObj [(''slug'', JStr ''hello'')])],
                      timestamps = [(''posts:bySlug:hello'', 1000)]\<rparr>,
          fetch_log = [''hello'']\<rparr>))
     = [''hello'']
   \<and> fst (createCacheableFetch (\<lambda>slug. Inr JNull) ''posts:bySlug'' (Some 60000) None Inr
         ''hello'' 70000 70000
         \<lparr>the_cache = \<lparr>data = [(''posts:bySlug:hello'', JObj [(''slug'', JStr ''hello'')])],
                      timestamps = [(''posts:bySlug:hello'', 1000)]\<rparr>,
          fetch_log = [''hello'']\<rparr>)
     = Inr JNull
   \<and> fetch_log (snd (createCacheableFetch (\<lambda>slug. Inr JNull) ''posts:bySlug'' (Some 60000)
         None Inr ''hello'' 70000 70000
         \<lparr>the_cache = \<lparr>data = [(''posts:bySlug:hello'', JObj [(''slug'', JStr ''hello'')])],
                      timestamps = [(''posts:bySlug:hello'', 1000)]\<rparr>,
          fetch_log = [''hello'']\<rparr>))
     = [''hello'', ''hello'']
   \<and> createCacheableFetch (\<lambda>post. Inr (JNum 0)) ''likes'' (Some 60000) None Inr
         ''p-first'' 1000 1000 initial_world
     = (Inr (JNum 0),
        \<lparr>the_cache = \<lparr>data = [(''likes:p-first'', JNum 0)],
                      timestamps = [(''likes:p-first'', 1000)]\<rparr>,
         fetch_log = [''p-first'']\<rparr>)
   \<and> fst (createCacheableFetch (\<lambda>post. Inr (JNum 1)) ''likes'' (Some 60000) None Inr
         ''p-first'' 2000 2000
         \<lparr>the_cache = \<lparr>data = [(''likes:p-first'', JNum 0)],
                      timestamps = [(''likes:p-first'', 1000)]\<rparr>,
          fetch_log = [''p-first'']\<rparr>)
     = Inr (JNum 1)
   \<and> fetch_log (snd (createCacheableFetch (\<lambda>post. Inr (JNum 1)) ''likes'' (Some 60000) None
         Inr ''p-first'' 2000 2000
         \<lparr>the_cache = \<lparr>data = [(''likes:p-first'', JNum 0)],
                      timestamps = [(''likes:p-first'', 1000)]\<rparr>,
          fetch_log = [''p-first'']\<rparr>))
     = [''p-first'', ''p-first'']"
proof -
  let ?f1 = "\<lambda>slug. Inr (JObj [(''slug'', JStr slug)]) :: js_error + jsval"
  let ?f2 = "\<lambda>slug::string. Inr JNull :: js_error + jsval"
  let ?v = "JObj [(''slug'', JStr ''hello'')]"
  let ?w1 = "\<lparr>the_cache = \<lparr>data = [(''posts:bySlug:hello'', ?v)],
                      timestamps = [(''posts:bySlug:hello'', 1000)]\<rparr>,
         fetch_log = [''hello'']\<rparr>"
  let ?live = "createCacheableFetch ?f2 ''posts:bySlug'' (Some 60000) None Inr ''hello''
                 2000 2000 ?w1"
  let ?stale = "createCacheableFetch ?f2 ''posts:bySlug'' (Some 60000) None Inr ''hello''
                 70000 70000 ?w1"
  let ?g1 = "\<lambda>post::string. Inr (JNum 0) :: js_error + jsval"
  let ?g2 = "\<lambda>post::string. Inr (JNum 1) :: js_error + jsval"
  let ?u1 = "\<lparr>the_cache = \<lparr>data = [(''likes:p-first'', JNum 0)],
                      timestamps = [(''likes:p-first'', 1000)]\<rparr>,
         fetch_log = [''p-first'']\<rparr>"
  let ?zero = "createCacheableFetch ?g2 ''likes'' (Some 60000) None Inr ''p-first''
                 2000 2000 ?u1"
  have first: "createCacheableFetch ?f1 ''posts:bySlug'' (Some 60000) None Inr ''hello''
                 1000 1000 initial_world = (Inr ?v, ?w1)"
    by (simp add: createCacheableFetch_def initial_world_def empty_cache_def cache_get_def
        cache_set_def default_maxAge_def Let_def)
  have fetched: "fetch_log ?w1 = fetch_log (initial_world :: string world) @ [''hello'']"
    by (simp add: initial_world_def)
  have stored: "?f1 ''hello'' = Inr ?v" by simp
  have live: "?live = (fst ?live, snd ?live)" by simp
  have stale: "?stale = (fst ?stale, snd ?stale)" by simp
  have first0: "createCacheableFetch ?g1 ''likes'' (Some 60000) None Inr ''p-first''
                 1000 1000 initial_world = (Inr (JNum 0), ?u1)"
    by (simp add: createCacheableFetch_def initial_world_def empty_cache_def cache_get_def
        cache_set_def default_maxAge_def Let_def)
  have fetched0: "fetch_log ?u1 = fetch_log (initial_world :: string world) @ [''p-first'']"
    by (simp add: initial_world_def)
  have stored0: "?g1 ''p-first'' = Inr (JNum 0)" by simp
  have zero: "?zero = (fst ?zero, snd ?zero)" by simp
  from cacheable_fetch_twice[OF first fetched stored live]
  have l: "fst ?live = Inr ?v \<and> fetch_log (snd ?live) = [''hello'']"
    by (simp add: default_maxAge_def)
  from cacheable_fetch_twice[OF first fetched stored stale]
  have s: "fst ?stale = Inr JNull \<and> fetch_log (snd ?stale) = [''hello'', ''hello'']"
    by (simp add: default_maxAge_def)
  from cacheable_fetch_twice[OF first0 fetched0 stored0 zero]
  have z: "fst ?zero = Inr (JNum 1) \<and> fetch_log (snd ?zero) = [''p-first'', ''p-first'']"
    by simp
  from first first0 l s z show ?thesis by simp
qed

text \<open>
  The claim for every stored result fails. A lookup of a slug that matches no post
  resolves to \<open>null\<close>; the wrapper stores it at time 1000, and the identical call at
  time 2000, with the entry 1000 ms old and the maximum age 60000 ms, invokes the fetch
  function a second time.
\<close>

theorem cacheable_fetch_twice_counterexample:
  "createCacheableFetch (\<lambda>slug. Inr JNull) ''posts:bySlug'' (Some 60000) None Inr
       ''no-such-post'' 1000 1000 initial_world
     = (Inr JNull,
        \<lparr>the_cache = \<lparr>data = [(''posts:bySlug:no-such-post'', JNull)],
                      timestamps = [(''posts:bySlug:no-such-post'', 1000)]\<rparr>,
         fetch_log = [''no-such-post'']\<rparr>)
   \<and> createCacheableFetch (\<lambda>slug. Inr JNull) ''posts:bySlug'' (Some 60000) None Inr
       ''no-such-post'' 2000 2000
        \<lparr>the_cache = \<lparr>data = [(''posts:bySlug:no-such-post'', JNull)],
                      timestamps = [(''posts:bySlug:no-such-post'', 1000)]\<rparr>,
         fetch_log = [''no-such-post'']\<rparr>
     = (Inr JNull,
        \<lparr>the_cache = \<lparr>data = [(''posts:bySlug:no-such-post'', JNull)],
                      timestamps = [(''posts:bySlug:no-such-post'', 2000)]\<rparr>,
         fetch_log = [''no-such-post'', ''no-such-post'']\<rparr>)"
  by (simp add: createCacheableFetch_def initial_world_def empty_cache_def cache_get_def
      cache_set_def default_maxAge_def Let_def)

section \<open>Properties of the services\<close>

subsection \<open>Pages of published posts\<close>

lemma slice_window:
  assumes "0 \<le> a" "0 \<le> l"
  shows "slice a (a + l) xs = take (nat l) (drop (nat a) xs)"
proof (cases "a \<le> int (length xs)")
  case True
  with assms have "slice a (a + l) xs
      = take (nat (min (a + l) (int (length xs)) - a)) (drop (nat a) xs)"
    by (simp add: slice_def Let_def min_def)
  also have "\<dots> = take (nat l) (drop (nat a) xs)"
    using True assms by (auto simp: min_def)
  finally show ?thesis .
next
  case False
  with assms show ?thesis by (simp add: slice_def Let_def min_def)
qed

lemma slice_take_drop: "\<exists>n k. slice a b xs = take n (drop k xs)"
  unfolding slice_def Let_def by blast

lemma published_page_window:
  assumes "published_page cats ps"
  shows "published_page cats (take n (drop k ps))"
  using assms unfolding published_page_def newest_first_def list_all_iff
  by (auto simp: sorted_wrt_take sorted_wrt_drop dest: in_set_takeD in_set_dropD)

lemma published_page_slice:
  assumes "published_page cats ps"
  shows "published_page cats (slice a b ps)"
proof -
  obtain n k where "slice a b ps = take n (drop k ps)" using slice_take_drop by blast
  with assms show ?thesis by (simp add: published_page_window)
qed

lemma mockPosts_page: "published_page mockCategories mockPosts"
  by (simp add: published_page_def newest_first_def mockPosts_def mockCategories_def
      carries_category_def)

lemma desc_before_total: "desc_before a b \<or> desc_before b a"
  by (cases a; cases b) auto

lemma desc_before_trans: "desc_before a b \<Longrightarrow> desc_before b c \<Longrightarrow> desc_before a c"
  by (cases a; cases b; cases c) auto

lemma set_insert_desc: "set (insert_desc p qs) = insert p (set qs)"
  by (induction qs) auto

lemma newest_first_insert_desc:
  "newest_first qs \<Longrightarrow> newest_first (insert_desc p qs)"
proof (induction qs)
  case Nil
  then show ?case by (simp add: newest_first_def)
next
  case (Cons q qs)
  then show ?case
    using desc_before_total[of "published_at p" "published_at q"]
    by (auto simp: newest_first_def set_insert_desc intro: desc_before_trans)
qed

lemma set_order_desc: "set (order_published_at_desc ps) = set ps"
  by (induction ps) (simp_all add: order_published_at_desc_def set_insert_desc)

lemma newest_first_order_desc: "newest_first (order_published_at_desc ps)"
proof (induction ps)
  case Nil
  show ?case by (simp add: order_published_at_desc_def newest_first_def)
next
  case (Cons p ps)
  then show ?case
    by (simp add: order_published_at_desc_def newest_first_insert_desc)
qed

lemma carries_with_category: "carries_category (categories_tbl d) (with_category d p)"
  by (simp add: carries_category_def with_category_def split: option.splits)

lemma range_rows_window:
  "range_rows offset (offset + limit - 1) rows = take (nat limit) (drop (nat offset) rows)"
  by (simp add: range_rows_def)

lemma published_with_category: "published (with_category d p) = published p"
  by (simp add: with_category_def)

lemma remote_rows_page:
  "published_page (categories_tbl d)
     (order_published_at_desc (map (with_category d) (visible_posts d)))"
  by (auto simp: published_page_def list_all_iff set_order_desc newest_first_order_desc
      carries_with_category visible_posts_def published_with_category)

text \<open>
  C2, as the code has it. \<open>posts.getPublished(limit, offset)\<close>, where an omitted
  \<open>limit\<close> is 10 and an omitted \<open>offset\<close> is 0.
  \<^item> When the fallback dataset is served (no configuration, or the remote request
    fails), the result is \<open>mockPosts.slice(offset, offset + limit)\<close>, for every
    \<open>limit\<close> and \<open>offset\<close>: only published posts, newest first, each with its
    category. For \<open>offset\<close> and \<open>limit\<close> that are not negative it is the window
    \<open>[offset, offset + limit)\<close> of the dataset.
  \<^item> When the remote store is configured and answers without error, the result is the
    rows of its answer to the select ordered by \<open>published_at\<close> descending with
    \<open>range(offset, offset + limit - 1)\<close> and the categories joined, as they are
    (\<open>[]\<close> for \<open>null\<close> data). The client sends no filter on \<open>published\<close> and
    applies none.
  \<^item> With the store of the setup script, whose read policy shows published posts only,
    and \<open>offset\<close> and \<open>limit\<close> that are not negative, that answer is the window
    \<open>[offset, offset + limit)\<close> of the published posts of the table, newest first,
    each joined with its category.
\<close>

theorem getPublished_page:
  assumes limit: "limit = (case limit_arg of None \<Rightarrow> 10 | Some n \<Rightarrow> n)"
    and offset: "offset = (case offset_arg of None \<Rightarrow> 0 | Some n \<Rightarrow> n)"
  shows
    "(\<not> isSupabaseConfigured e \<or> failed (posts_page r offset (offset + limit - 1)) \<longrightarrow>
        postsService_getPublished e r limit_arg offset_arg
          = Inr (slice offset (offset + limit) mockPosts)
      \<and> published_page mockCategories (slice offset (offset + limit) mockPosts)
      \<and> (0 \<le> offset \<and> 0 \<le> limit \<longrightarrow>
           slice offset (offset + limit) mockPosts
             = take (nat limit) (drop (nat offset) mockPosts)))
   \<and> (isSupabaseConfigured e \<and> posts_page r offset (offset + limit - 1) = Reply dt None \<longrightarrow>
        postsService_getPublished e r limit_arg offset_arg = Inr (or_empty dt))
   \<and> (isSupabaseConfigured e \<and> 0 \<le> offset \<and> 0 \<le> limit \<longrightarrow>
        postsService_getPublished e (supabase d) limit_arg offset_arg
          = Inr (take (nat limit) (drop (nat offset)
                  (order_published_at_desc
                     (map (with_category d) (filter published (posts_tbl d))))))
      \<and> published_page (categories_tbl d)
            (take (nat limit) (drop (nat offset)
                  (order_published_at_desc
                     (map (with_category d) (filter published (posts_tbl d)))))))"
proof -
  have fallback: "postsService_getPublished e r limit_arg offset_arg
          = Inr (slice offset (offset + limit) mockPosts)"
    if "\<not> isSupabaseConfigured e \<or> failed (posts_page r offset (offset + limit - 1))"
  proof (cases "isSupabaseConfigured e")
    case False
    then show ?thesis
      by (simp add: postsService_getPublished_def Let_def limit offset)
  next
    case True
    with that have "failed (posts_page r offset (offset + limit - 1))" by simp
    then have "await_or_throw (posts_page r offset (offset + limit - 1)) (\<lambda>d. Inr (or_empty d))
                 = Inl (case posts_page r offset (offset + limit - 1) of
                          Rejected x \<Rightarrow> x | Reply d err \<Rightarrow> the err)"
      by (cases "posts_page r offset (offset + limit - 1)") (auto simp: await_or_throw_def)
    with True show ?thesis
      by (simp add: postsService_getPublished_def Let_def try_catch_def flip: limit offset)
  qed
  have answered: "postsService_getPublished e r limit_arg offset_arg = Inr (or_empty dt)"
    if "isSupabaseConfigured e" "posts_page r offset (offset + limit - 1) = Reply dt None"
    using that
    by (simp add: postsService_getPublished_def Let_def try_catch_def await_or_throw_def
        flip: limit offset)
  have remote: "postsService_getPublished e (supabase d) limit_arg offset_arg
          = Inr (take (nat limit) (drop (nat offset)
                  (order_published_at_desc
                     (map (with_category d) (filter published (posts_tbl d))))))"
    if "isSupabaseConfigured e"
    using that
    by (simp add: postsService_getPublished_def Let_def try_catch_def await_or_throw_def
        supabase_def or_empty_def range_rows_window visible_posts_def flip: limit offset)
  show ?thesis
    using fallback answered remote
      published_page_slice[OF mockPosts_page, of offset "offset + limit"]
      slice_window[of offset limit mockPosts]
      published_page_window[OF remote_rows_page, of d "nat limit" "nat offset"]
    by (simp add: visible_posts_def)
qed

text \<open>Without configuration, the second page of two posts is the second and third post
  of the dataset. With the sample database behind the remote store, the first page holds
  its two published posts, the later one first, and not the draft. An answer of the
  remote store is handed on as it is.\<close>

theorem getPublished_page_witness:
  "\<not> isSupabaseConfigured offline_env
   \<and> postsService_getPublished offline_env mock_client (Some 2) (Some 1)
       = Inr (take 2 (drop 1 mockPosts))
   \<and> published_page mockCategories (take 2 (drop 1 mockPosts))
   \<and> isSupabaseConfigured online_env
   \<and> postsService_getPublished online_env (supabase sample_db) (Some 2) (Some 0)
       = Inr [sample_second, sample_first\<lparr>categories := Some sample_tech\<rparr>]
   \<and> published_page (categories_tbl sample_db)
       [sample_second, sample_first\<lparr>categories := Some sample_tech\<rparr>]
   \<and> postsService_getPublished online_env
        (unreachable\<lparr>posts_page := \<lambda>from to. Reply (Some [sample_second]) None\<rparr>)
        (Some 2) (Some 0)
       = Inr [sample_second]"
proof -
  let ?r = "unreachable\<lparr>posts_page := \<lambda>from to. Reply (Some [sample_second]) None\<rparr>"
  have off: "\<not> isSupabaseConfigured offline_env"
    by (simp add: isSupabaseConfigured_def offline_env_def)
  have on: "isSupabaseConfigured online_env"
    by (simp add: isSupabaseConfigured_def online_env_def)
  have rows: "take 2 (drop 0 (order_published_at_desc
                 (map (with_category sample_db) (filter published (posts_tbl sample_db)))))
              = [sample_second, sample_first\<lparr>categories := Some sample_tech\<rparr>]"
    by (simp add: sample_db_def sample_first_def sample_draft_def sample_second_def
        sample_tech_def sample_design_def order_published_at_desc_def with_category_def)
  have ans: "posts_page ?r 0 (0 + 2 - 1) = Reply (Some [sample_second]) None"
    by simp
  from getPublished_page[of 2 "Some 2" 1 "Some 1" offline_env mock_client None sample_db] off
  have a: "postsService_getPublished offline_env mock_client (Some 2) (Some 1)
             = Inr (take 2 (drop 1 mockPosts))
           \<and> published_page mockCategories (take 2 (drop 1 mockPosts))"
    by (auto simp: numeral_2_eq_2)
  from getPublished_page[of 2 "Some 2" 0 "Some 0" online_env mock_client None sample_db] on rows
  have b: "postsService_getPublished online_env (supabase sample_db) (Some 2) (Some 0)
             = Inr [sample_second, sample_first\<lparr>categories := Some sample_tech\<rparr>]
           \<and> published_page (categories_tbl sample_db)
               [sample_second, sample_first\<lparr>categories := Some sample_tech\<rparr>]"
    by (simp add: numeral_2_eq_2)
  from getPublished_page[of 2 "Some 2" 0 "Some 0" online_env ?r "Some [sample_second]"
      sample_db] on ans
  have c: "postsService_getPublished online_env ?r (Some 2) (Some 0) = Inr [sample_second]"
    by (simp add: or_empty_def)
  from off on a b c show ?thesis by simp
qed

text \<open>
  The claim as stated fails in two places. With the configuration present and the read
  policy of \<open>posts\<close> absent from the store, the first page of the sample database
  begins with the draft, which is not published: nothing in the client filters it. And
  without configuration, \<open>getPublished(-1, 0)\<close> returns the first three posts of the
  dataset (\<open>slice(0, -1)\<close> drops the last one), where the window \<open>[0, -1)\<close> is empty.
\<close>

theorem getPublished_page_counterexample:
  "isSupabaseConfigured online_env
   \<and> postsService_getPublished online_env (supabase_without_policy sample_db) (Some 10) (Some 0)
       = Inr [sample_draft\<lparr>categories := Some sample_design\<rparr>, sample_second,
              sample_first\<lparr>categories := Some sample_tech\<rparr>]
   \<and> \<not> published (sample_draft\<lparr>categories := Some sample_design\<rparr>)
   \<and> postsService_getPublished offline_env mock_client (Some (- 1)) (Some 0)
       = Inr (take 3 mockPosts)
   \<and> length (take 3 mockPosts) = 3"
  by (simp add: isSupabaseConfigured_def online_env_def offline_env_def
      postsService_getPublished_def supabase_without_policy_def supabase_def
      try_catch_def await_or_throw_def or_empty_def range_rows_def
      order_published_at_desc_def with_category_def sample_db_def sample_first_def
      sample_draft_def sample_second_def sample_tech_def sample_design_def
      slice_def mockPosts_def)

lemma failed_await: "failed rep \<Longrightarrow> \<exists>x. await_or_throw rep k = Inl x"
  by (cases rep) (auto simp: await_or_throw_def)

lemma online_configured: "isSupabaseConfigured online_env"
  by (simp add: isSupabaseConfigured_def online_env_def)

lemma offline_not_configured: "\<not> isSupabaseConfigured offline_env"
  by (simp add: isSupabaseConfigured_def offline_env_def)

subsection \<open>The list of categories\<close>

text \<open>
  C8, as the code has it. \<open>categories.getAll()\<close>:
  \<^item> when the remote store is configured and answers, the result is its answer to the
    select ordered by \<open>name\<close> ascending: all categories of the table, ordered by name;
  \<^item> when the configuration is missing or the remote request fails, the result is the
    static list \<open>mockCategories\<close> as it is declared.
  The static list is not in name order (Technology, Travel, Lifestyle, Design,
  Programming), so the ordering holds in the first mode only.
\<close>

theorem getAll_modes:
  "(isSupabaseConfigured e \<longrightarrow>
      categoriesService_getAll e (supabase d) = Inr (sort_key cat_name (categories_tbl d))
    \<and> sorted (map cat_name (sort_key cat_name (categories_tbl d)))
    \<and> set (sort_key cat_name (categories_tbl d)) = set (categories_tbl d)
    \<and> length (sort_key cat_name (categories_tbl d)) = length (categories_tbl d))
 \<and> (\<not> isSupabaseConfigured e \<or> failed (categories_by_name r) \<longrightarrow>
      categoriesService_getAll e r = Inr mockCategories)"
proof -
  have "categoriesService_getAll e r = Inr mockCategories"
    if "\<not> isSupabaseConfigured e \<or> failed (categories_by_name r)"
  proof (cases "isSupabaseConfigured e")
    case False
    then show ?thesis by (simp add: categoriesService_getAll_def)
  next
    case True
    with that obtain x where
      "await_or_throw (categories_by_name r) (\<lambda>d. Inr (or_empty d)) = Inl x"
      using failed_await by blast
    with True show ?thesis
      by (simp add: categoriesService_getAll_def try_catch_def)
  qed
  moreover have "categoriesService_getAll e (supabase d)
                   = Inr (sort_key cat_name (categories_tbl d))"
    if "isSupabaseConfigured e"
    using that
    by (simp add: categoriesService_getAll_def try_catch_def await_or_throw_def supabase_def
        or_empty_def)
  ultimately show ?thesis by simp
qed

text \<open>With the sample database, Design comes before Technology; with the remote store
  out of reach, the static list is served.\<close>

theorem getAll_modes_witness:
  "isSupabaseConfigured online_env
   \<and> categoriesService_getAll online_env (supabase sample_db) = Inr [sample_design, sample_tech]
   \<and> failed (categories_by_name unreachable)
   \<and> categoriesService_getAll online_env unreachable = Inr mockCategories"
proof -
  have f: "failed (categories_by_name unreachable)"
    by (simp add: unreachable_def)
  have s: "sort_key cat_name (categories_tbl sample_db) = [sample_design, sample_tech]"
    by (simp add: sample_db_def sample_tech_def sample_design_def)
  from getAll_modes[of online_env sample_db unreachable] online_configured f s
  show ?thesis by simp
qed

text \<open>The claim for every mode fails where the configuration is missing: the list
  returned has Travel before Lifestyle.\<close>

theorem getAll_fallback_counterexample:
  "categoriesService_getAll offline_env mock_client = Inr mockCategories
   \<and> map cat_name mockCategories
       = [''Technology'', ''Travel'', ''Lifestyle'', ''Design'', ''Programming'']
   \<and> \<not> sorted (map cat_name mockCategories)"
  by (simp add: categoriesService_getAll_def isSupabaseConfigured_def offline_env_def
      mockCategories_def)

subsection \<open>A slug that matches no post\<close>

lemma getBySlug_resolves: "\<exists>v. postsService_getBySlug e r slug = Inr v"
  by (auto simp: postsService_getBySlug_def try_catch_def split: sum.splits)

text \<open>
  C7. \<open>posts.getBySlug(slug)\<close> never rejects, whatever the remote store answers. With
  the configuration present, a remote answer that carries no row (the error of
  \<open>single()\<close> on an empty result, \<open>null\<close> data, or a rejected request) and a slug that
  no post of the fallback dataset has, it resolves to \<open>null\<close>. The remote store of the
  setup script gives such an answer for every slug that no post of its table has.
\<close>

theorem getBySlug_missing:
  "(\<exists>v. postsService_getBySlug e r slug = Inr v)
 \<and> (isSupabaseConfigured e \<and> no_row (post_by_slug r slug)
      \<and> find (\<lambda>post. post_slug post = slug) mockPosts = None
    \<longrightarrow> postsService_getBySlug e r slug = Inr None)
 \<and> (list_all (\<lambda>p. post_slug p \<noteq> slug) (posts_tbl d)
    \<longrightarrow> no_row (post_by_slug (supabase d) slug))"
proof -
  have "postsService_getBySlug e r slug = Inr None"
    if c: "isSupabaseConfigured e" and n: "no_row (post_by_slug r slug)"
      and m: "find (\<lambda>post. post_slug post = slug) mockPosts = None"
  proof (cases "post_by_slug r slug")
    case (Rejected x)
    with c m show ?thesis
      by (simp add: postsService_getBySlug_def try_catch_def await_or_throw_def)
  next
    case (Reply dt err)
    with n have "dt = None" by simp
    with Reply c m show ?thesis
      by (simp add: postsService_getBySlug_def try_catch_def await_or_throw_def
          split: option.splits)
  qed
  moreover have "no_row (post_by_slug (supabase d) slug)"
    if "list_all (\<lambda>p. post_slug p \<noteq> slug) (posts_tbl d)"
  proof -
    from that have "filter (\<lambda>p. post_slug p = slug) (visible_posts d) = []"
      by (auto simp: visible_posts_def list_all_iff filter_empty_conv)
    then show ?thesis by (simp add: supabase_def)
  qed
  ultimately show ?thesis using getBySlug_resolves by blast
qed

theorem getBySlug_missing_witness:
  "isSupabaseConfigured online_env
   \<and> no_row (post_by_slug (supabase sample_db) ''nonexistent-slug'')
   \<and> find (\<lambda>post. post_slug post = ''nonexistent-slug'') mockPosts = None
   \<and> postsService_getBySlug online_env (supabase sample_db) ''nonexistent-slug'' = Inr None"
proof -
  have m: "find (\<lambda>post. post_slug post = ''nonexistent-slug'') mockPosts = None"
    by (simp add: mockPosts_def)
  have l: "list_all (\<lambda>p. post_slug p \<noteq> ''nonexistent-slug'') (posts_tbl sample_db)"
    by (simp add: sample_db_def sample_first_def sample_draft_def sample_second_def)
  from getBySlug_missing[of online_env "supabase sample_db" "''nonexistent-slug''" sample_db]
    online_configured m l
  show ?thesis by simp
qed

subsection \<open>Has this user liked the post\<close>

lemma maybeSingle_at_most_one:
  "length rows \<le> 1 \<Longrightarrow>
     maybeSingle rows = Reply (case rows of [] \<Rightarrow> None | x # _ \<Rightarrow> Some x) None"
  by (cases rows rule: maybeSingle.cases) auto

lemma filter_pair_le_one:
  assumes "distinct (map (\<lambda>l. (like_post_id l, like_user_id l)) ls)"
  shows "length (filter (\<lambda>l. like_user_id l = u) (filter (\<lambda>l. like_post_id l = p) ls)) \<le> 1"
  using assms
proof (induction ls)
  case Nil
  then show ?case by simp
next
  case (Cons l ls)
  show ?case
  proof (cases "like_post_id l = p \<and> like_user_id l = u")
    case True
    with Cons.prems have "\<forall>l' \<in> set ls. \<not> (like_post_id l' = p \<and> like_user_id l' = u)"
      by (auto simp: image_iff)
    then have "filter (\<lambda>l. like_user_id l = u) (filter (\<lambda>l. like_post_id l = p) ls) = []"
      by (auto simp: filter_empty_conv)
    with True show ?thesis by simp
  next
    case False
    with Cons show ?thesis by auto
  qed
qed

text \<open>
  C6, as the code has it. \<open>engagement.hasLiked(postId, userId)\<close>:
  \<^item> when the configuration is missing, or \<open>postId\<close> or \<open>userId\<close> is missing or empty,
    it answers whether the post id is in the local persistent liked-posts list, and
    \<open>false\<close> when that list cannot be read;
  \<^item> when the remote check is made and fails (the request rejects or the reply carries
    an error), it answers \<open>false\<close>, whatever the local list holds;
  \<^item> when the remote check is made against the store of the setup script, whose likes
    are unique per post and user, it answers whether the Like row exists.
\<close>

theorem hasLiked_modes:
  "(\<not> isSupabaseConfigured e \<or> \<not> present postId \<or> \<not> present userId \<longrightarrow>
      engagementService_hasLiked e r postId userId c
        = Inr (case parse_ids (local_likedPosts c) of
                 Inl x \<Rightarrow> False
               | Inr likedPosts \<Rightarrow> postId \<in> Some ` set likedPosts))
 \<and> (isSupabaseConfigured e \<and> present postId \<and> present userId
      \<and> failed (like_row r (the postId) (the userId)) \<longrightarrow>
      engagementService_hasLiked e r postId userId c = Inr False)
 \<and> (isSupabaseConfigured e \<and> present postId \<and> present userId
      \<and> distinct (map (\<lambda>l. (like_post_id l, like_user_id l)) (likes_tbl d)) \<longrightarrow>
      engagementService_hasLiked e (supabase d) postId userId c
        = Inr ((the postId, the userId)
                 \<in> set (map (\<lambda>l. (like_post_id l, like_user_id l)) (likes_tbl d))))"
proof -
  have local: "engagementService_hasLiked e r postId userId c
        = Inr (case parse_ids (local_likedPosts c) of
                 Inl x \<Rightarrow> False
               | Inr likedPosts \<Rightarrow> postId \<in> Some ` set likedPosts)"
    if "\<not> isSupabaseConfigured e \<or> \<not> present postId \<or> \<not> present userId"
    using that
    by (auto simp: engagementService_hasLiked_def try_catch_def split: sum.splits)
  have fail: "engagementService_hasLiked e r postId userId c = Inr False"
    if "isSupabaseConfigured e" "present postId" "present userId"
      "failed (like_row r (the postId) (the userId))"
  proof -
    from that(4) obtain x where
      "await_or_throw (like_row r (the postId) (the userId)) (\<lambda>d. Inr (d \<noteq> None)) = Inl x"
      using failed_await by blast
    with that(1-3) show ?thesis
      by (simp add: engagementService_hasLiked_def try_catch_def)
  qed
  have ok: "engagementService_hasLiked e (supabase d) postId userId c
        = Inr ((the postId, the userId)
                 \<in> set (map (\<lambda>l. (like_post_id l, like_user_id l)) (likes_tbl d)))"
    if cfg: "isSupabaseConfigured e" "present postId" "present userId"
      and dist: "distinct (map (\<lambda>l. (like_post_id l, like_user_id l)) (likes_tbl d))"
  proof -
    let ?rows = "filter (\<lambda>l. like_user_id l = the userId)
                   (filter (\<lambda>l. like_post_id l = the postId) (likes_tbl d))"
    have le: "length (map like_id ?rows) \<le> 1"
      using filter_pair_le_one[OF dist] by simp
    have "like_row (supabase d) (the postId) (the userId)
            = Reply (case map like_id ?rows of [] \<Rightarrow> None | x # _ \<Rightarrow> Some x) None"
      using maybeSingle_at_most_one[OF le] by (simp add: supabase_def likes_of_def)
    moreover have "(map like_id ?rows \<noteq> []) =
       ((the postId, the userId)
          \<in> set (map (\<lambda>l. (like_post_id l, like_user_id l)) (likes_tbl d)))"
      by (fastforce simp: filter_empty_conv image_iff)
    ultimately show ?thesis
      using cfg
      by (auto simp: engagementService_hasLiked_def try_catch_def await_or_throw_def
          split: list.splits)
  qed
  from local fail ok show ?thesis by blast
qed

text \<open>A browser whose local list holds the first post of the sample database: without
  configuration the answer comes from the list; with the remote store out of reach it is
  \<open>false\<close>; with the sample database it is whether the row exists.\<close>

theorem hasLiked_modes_witness:
  "engagementService_hasLiked offline_env mock_client (Some ''p-first'') (Some ''guest-1'')
       (fresh_client\<lparr>local_likedPosts := Some (Ids [''p-first''])\<rparr>) = Inr True
   \<and> engagementService_hasLiked online_env unreachable (Some ''p-first'') (Some ''guest-1'')
       (fresh_client\<lparr>local_likedPosts := Some (Ids [''p-first''])\<rparr>) = Inr False
   \<and> engagementService_hasLiked online_env (supabase sample_db) (Some ''p-first'')
       (Some ''guest-1'') fresh_client = Inr True
   \<and> engagementService_hasLiked online_env (supabase sample_db) (Some ''p-second'')
       (Some ''guest-1'') fresh_client = Inr False"
proof -
  let ?c = "fresh_client\<lparr>local_likedPosts := Some (Ids [''p-first''])\<rparr>"
  have f: "failed (like_row unreachable ''p-first'' ''guest-1'')"
    by (simp add: unreachable_def)
  have dist: "distinct (map (\<lambda>l. (like_post_id l, like_user_id l)) (likes_tbl sample_db))"
    by (simp add: sample_db_def)
  have p: "parse_ids (local_likedPosts ?c) = Inr [''p-first'']"
    by (simp add: parse_ids_def)
  from hasLiked_modes[of offline_env "Some ''p-first''" "Some ''guest-1''" mock_client ?c
      sample_db] offline_not_configured p
  have a: "engagementService_hasLiked offline_env mock_client (Some ''p-first'')
             (Some ''guest-1'') ?c = Inr True"
    by simp
  from hasLiked_modes[of online_env "Some ''p-first''" "Some ''guest-1''" unreachable ?c
      sample_db] online_configured f
  have b: "engagementService_hasLiked online_env unreachable (Some ''p-first'')
             (Some ''guest-1'') ?c = Inr False"
    by simp
  from hasLiked_modes[of online_env "Some ''p-first''" "Some ''guest-1''" unreachable
      fresh_client sample_db] online_configured dist
  have c: "engagementService_hasLiked online_env (supabase sample_db) (Some ''p-first'')
             (Some ''guest-1'') fresh_client = Inr True"
    by (simp add: sample_db_def)
  from hasLiked_modes[of online_env "Some ''p-second''" "Some ''guest-1''" unreachable
      fresh_client sample_db] online_configured dist
  have d: "engagementService_hasLiked online_env (supabase sample_db) (Some ''p-second'')
             (Some ''guest-1'') fresh_client = Inr False"
    by (simp add: sample_db_def)
  from a b c d show ?thesis by simp
qed

text \<open>The claim fails on a failed remote check: the configuration is present, the request
  rejects, the local list holds the post id, and the answer is \<open>false\<close>.\<close>

theorem hasLiked_remote_failure_counterexample:
  "isSupabaseConfigured online_env
   \<and> failed (like_row unreachable ''p-first'' ''guest-1'')
   \<and> parse_ids (local_likedPosts (fresh_client\<lparr>local_likedPosts := Some (Ids [''p-first''])\<rparr>))
       = Inr [''p-first'']
   \<and> engagementService_hasLiked online_env unreachable (Some ''p-first'') (Some ''guest-1'')
       (fresh_client\<lparr>local_likedPosts := Some (Ids [''p-first''])\<rparr>) = Inr False"
  by (simp add: isSupabaseConfigured_def online_env_def unreachable_def parse_ids_def
      fresh_client_def engagementService_hasLiked_def try_catch_def await_or_throw_def)

subsection \<open>The number of likes\<close>

lemma floor_below_50:
  fixes x :: rat
  assumes "0 \<le> x" "x < 50"
  shows "0 \<le> \<lfloor>x\<rfloor> \<and> \<lfloor>x\<rfloor> < 50"
  using assms by (simp add: floor_less_iff)

text \<open>
  C9, as the code has it. \<open>engagement.getLikes(postId)\<close>:
  \<^item> without configuration it returns \<open>Math.floor(Math.random() * 50)\<close>, the floor of
    the random product (from 0 to 49 for a product from 0 up to, not including, 50),
    which no stored data determines;
  \<^item> with configuration, when the read of the counter answers with a row and no
    error, it returns the counter of that row, and 0 for a counter that is \<open>null\<close>;
    against the store of the setup script that is the denormalized like counter of the
    post;
  \<^item> when that read answers with an error or without a row, it returns what the count
    of the Like rows of the post answers (0 for a count that is \<open>null\<close>); against the
    store of the setup script that is the number of Like rows of the post;
  \<^item> when the count fails as well, or when the read of the counter rejects, it
    returns 0.
\<close>

theorem getLikes_modes:
  "(\<not> isSupabaseConfigured e \<longrightarrow>
      engagementService_getLikes e r random_product postId = Inr \<lfloor>random_product\<rfloor>
    \<and> (0 \<le> random_product \<and> random_product < 50 \<longrightarrow>
         0 \<le> \<lfloor>random_product\<rfloor> \<and> \<lfloor>random_product\<rfloor> < 50))
 \<and> (isSupabaseConfigured e \<and> post_likes r postId = Reply (Some row) None \<longrightarrow>
      engagementService_getLikes e r random_product postId
        = Inr (case row of Some n \<Rightarrow> n | None \<Rightarrow> 0))
 \<and> (isSupabaseConfigured e \<and> filter (\<lambda>p. post_id p = postId) (visible_posts d) = [p] \<longrightarrow>
      engagementService_getLikes e (supabase d) random_product postId = Inr (likes p))
 \<and> (isSupabaseConfigured e \<and> post_likes r postId = Reply dt err \<and> (err \<noteq> None \<or> dt = None)
      \<and> count_likes r postId = Reply cnt None \<longrightarrow>
      engagementService_getLikes e r random_product postId
        = Inr (case cnt of Some n \<Rightarrow> n | None \<Rightarrow> 0))
 \<and> (isSupabaseConfigured e \<and> post_likes r postId = Reply dt err \<and> (err \<noteq> None \<or> dt = None)
      \<and> count_likes r postId = count_likes (supabase d) postId \<longrightarrow>
      engagementService_getLikes e r random_product postId
        = Inr (int (length (likes_of d postId))))
 \<and> (isSupabaseConfigured e \<and> post_likes r postId = Reply dt err \<and> (err \<noteq> None \<or> dt = None)
      \<and> failed (count_likes r postId) \<longrightarrow>
      engagementService_getLikes e r random_product postId = Inr 0)
 \<and> (isSupabaseConfigured e \<and> post_likes r postId = Rejected x \<longrightarrow>
      engagementService_getLikes e r random_product postId = Inr 0)"
proof -
  have a: "engagementService_getLikes e r random_product postId = Inr \<lfloor>random_product\<rfloor>"
    if "\<not> isSupabaseConfigured e"
    using that by (simp add: engagementService_getLikes_def)
  have row: "engagementService_getLikes e r random_product postId
        = Inr (case row of Some n \<Rightarrow> n | None \<Rightarrow> 0)"
    if "isSupabaseConfigured e" "post_likes r postId = Reply (Some row) None"
    using that by (simp add: engagementService_getLikes_def try_catch_def)
  have b: "engagementService_getLikes e (supabase d) random_product postId = Inr (likes p)"
    if "isSupabaseConfigured e" "filter (\<lambda>p. post_id p = postId) (visible_posts d) = [p]"
    using that by (simp add: engagementService_getLikes_def supabase_def try_catch_def)
  have cnt: "engagementService_getLikes e r random_product postId
        = Inr (case cnt of Some n \<Rightarrow> n | None \<Rightarrow> 0)"
    if "isSupabaseConfigured e" "post_likes r postId = Reply dt err" "err \<noteq> None \<or> dt = None"
      "count_likes r postId = Reply cnt None"
    using that
    by (auto simp: engagementService_getLikes_def try_catch_def await_or_throw_def)
  have c: "engagementService_getLikes e r random_product postId
             = Inr (int (length (likes_of d postId)))"
    if "isSupabaseConfigured e" "post_likes r postId = Reply dt err" "err \<noteq> None \<or> dt = None"
      "count_likes r postId = count_likes (supabase d) postId"
    using that
    by (auto simp: engagementService_getLikes_def supabase_def try_catch_def await_or_throw_def)
  have d: "engagementService_getLikes e r random_product postId = Inr 0"
    if "isSupabaseConfigured e" "post_likes r postId = Reply dt err" "err \<noteq> None \<or> dt = None"
      "failed (count_likes r postId)"
  proof -
    from that(4) obtain y where
      "await_or_throw (count_likes r postId)
         (\<lambda>count. Inr (case count of Some n \<Rightarrow> n | None \<Rightarrow> 0)) = Inl y"
      using failed_await by blast
    with that(1-3) show ?thesis
      by (auto simp: engagementService_getLikes_def try_catch_def)
  qed
  have f: "engagementService_getLikes e r random_product postId = Inr 0"
    if "isSupabaseConfigured e" "post_likes r postId = Rejected x"
    using that by (simp add: engagementService_getLikes_def try_catch_def)
  from a row b cnt c d f floor_below_50[of random_product] show ?thesis by blast
qed

text \<open>The first post of the sample database has the counter 3 and two Like rows. The
  counter is returned when it can be read, and 0 for a row whose counter is \<open>null\<close>;
  the draft, which the read policy hides, has no readable counter and its rows are
  counted; with the store out of reach the result is 0; without configuration the result
  follows the random product.\<close>

theorem getLikes_modes_witness:
  "engagementService_getLikes offline_env mock_client 25 ''p-first'' = Inr 25
   \<and> engagementService_getLikes online_env (supabase sample_db) 0 ''p-first'' = Inr 3
   \<and> engagementService_getLikes online_env
        ((supabase sample_db)\<lparr>post_likes := \<lambda>i. Reply (Some None) None\<rparr>) 0 ''p-first''
       = Inr 0
   \<and> engagementService_getLikes online_env (supabase sample_db) 0 ''p-draft'' = Inr 0
   \<and> engagementService_getLikes online_env
        ((supabase sample_db)\<lparr>post_likes := \<lambda>i. Reply None (Some network_error)\<rparr>) 0 ''p-first''
       = Inr 2
   \<and> engagementService_getLikes online_env unreachable 0 ''p-first'' = Inr 0"
proof -
  let ?r = "(supabase sample_db)\<lparr>post_likes := \<lambda>i. Reply None (Some network_error)\<rparr>"
  let ?n = "(supabase sample_db)\<lparr>post_likes := \<lambda>i. Reply (Some None) None\<rparr>"
  have v: "filter (\<lambda>p. post_id p = ''p-first'') (visible_posts sample_db) = [sample_first]"
    by (simp add: visible_posts_def sample_db_def sample_first_def sample_draft_def
        sample_second_def)
  have dr: "post_likes (supabase sample_db) ''p-draft'' = Reply None (Some not_one_row)"
    by (simp add: supabase_def visible_posts_def sample_db_def sample_first_def
        sample_draft_def sample_second_def)
  have pl: "post_likes ?r ''p-first'' = Reply None (Some network_error)" by simp
  have cl: "count_likes ?r ''p-first'' = count_likes (supabase sample_db) ''p-first''"
    by (simp add: supabase_def)
  have nl: "post_likes ?n ''p-first'' = Reply (Some None) None" by simp
  have rj: "post_likes unreachable ''p-first'' = Rejected network_error"
    by (simp add: unreachable_def)
  note inst = getLikes_modes[where d = sample_db and p = sample_first and postId = "''p-first''"
      and x = network_error and cnt = None]
  from inst[where e = offline_env and r = mock_client and random_product = 25
      and row = None and dt = None and err = None] offline_not_configured
  have a: "engagementService_getLikes offline_env mock_client 25 ''p-first'' = Inr 25"
    by simp
  from inst[where e = online_env and r = mock_client and random_product = 0
      and row = None and dt = None and err = None] online_configured v
  have b: "engagementService_getLikes online_env (supabase sample_db) 0 ''p-first'' = Inr 3"
    by (simp add: sample_first_def)
  from inst[where e = online_env and r = ?n and random_product = 0
      and row = None and dt = None and err = None] online_configured nl
  have n: "engagementService_getLikes online_env ?n 0 ''p-first'' = Inr 0"
    by simp
  from getLikes_modes[where d = sample_db and p = sample_first and postId = "''p-draft''"
      and x = network_error and cnt = None and e = online_env and r = "supabase sample_db"
      and random_product = 0 and row = None and dt = None and err = "Some not_one_row"]
    online_configured dr
  have c: "engagementService_getLikes online_env (supabase sample_db) 0 ''p-draft'' = Inr 0"
    by (simp add: likes_of_def sample_db_def)
  from inst[where e = online_env and r = ?r and random_product = 0
      and row = None and dt = None and err = "Some network_error"] online_configured pl cl
  have d: "engagementService_getLikes online_env ?r 0 ''p-first'' = Inr 2"
    by (simp add: likes_of_def sample_db_def)
  from inst[where e = online_env and r = unreachable and random_product = 0
      and row = None and dt = None and err = None] online_configured rj
  have f: "engagementService_getLikes online_env unreachable 0 ''p-first'' = Inr 0"
    by simp
  from a b n c d f show ?thesis by simp
qed

text \<open>The claim that the value is always one of the two stored counts fails without
  configuration: for the first post of the fallback dataset, whose counter is 23, the
  result is 25 for one random product and 5 for another.\<close>

theorem getLikes_random_counterexample:
  "engagementService_getLikes offline_env mock_client 25
       ''1649b2bb-031b-416f-9277-a8ada9b1dfeb'' = Inr 25
   \<and> engagementService_getLikes offline_env mock_client 5
       ''1649b2bb-031b-416f-9277-a8ada9b1dfeb'' = Inr 5
   \<and> map likes (filter (\<lambda>p. post_id p = ''1649b2bb-031b-416f-9277-a8ada9b1dfeb'') mockPosts)
       = [23]"
  by (simp add: engagementService_getLikes_def isSupabaseConfigured_def offline_env_def
      mockPosts_def)

subsection \<open>Toggling a like at the remote store\<close>

lemma toggleLike_resolves:
  "\<exists>res. fst (engagementService_toggleLike e r u postId isLiked c) = Inr res"
  by (auto simp: engagementService_toggleLike_def try_catch_def Let_def
      split: prod.splits sum.splits)

lemma toggleLike_state:
  "\<exists>g. snd (engagementService_toggleLike e r u postId isLiked c) = c\<lparr>local_blog_guest_id := g\<rparr>"
proof (cases "isSupabaseConfigured e")
  case False
  then have "snd (engagementService_toggleLike e r u postId isLiked c)
               = c\<lparr>local_blog_guest_id := local_blog_guest_id c\<rparr>"
    by (simp add: engagementService_toggleLike_def)
  then show ?thesis by blast
next
  case True
  then have "snd (engagementService_toggleLike e r u postId isLiked c)
               = snd (signInAnonymously e u c)"
    by (simp add: engagementService_toggleLike_def Let_def split: prod.splits)
  moreover have "\<exists>g. snd (signInAnonymously e u c) = c\<lparr>local_blog_guest_id := g\<rparr>"
  proof (cases "present (local_blog_guest_id c)")
    case True
    then have "snd (signInAnonymously e u c)
                 = c\<lparr>local_blog_guest_id := local_blog_guest_id c\<rparr>"
      by (simp add: signInAnonymously_def)
    then show ?thesis by blast
  next
    case False
    show ?thesis
    proof (cases u)
      case (Inl a)
      with False have "snd (signInAnonymously e u c)
                         = c\<lparr>local_blog_guest_id := local_blog_guest_id c\<rparr>"
        by (simp add: signInAnonymously_def)
      then show ?thesis by blast
    next
      case (Inr g)
      with False \<open>isSupabaseConfigured e\<close>
      have "snd (signInAnonymously e u c) = c\<lparr>local_blog_guest_id := Some g\<rparr>"
        by (simp add: signInAnonymously_def)
      then show ?thesis by blast
    qed
  qed
  ultimately show ?thesis by simp
qed

text \<open>
  C10. \<open>engagement.toggleLike(postId, currentlyLiked)\<close> resolves for every environment,
  every behaviour of the remote store (the delete, the insert, the read of the counter
  and the count of rows may each fail or reject), every outcome of creating the guest id
  and every browser state: to a number or to \<open>true\<close>, never to a rejection. Hence
  \<open>handleLike\<close> of the post page never takes the \<open>catch\<close> of that call: the toast is
  left as it was.
\<close>

theorem toggleLike_never_rejects:
  "(\<exists>res. fst (engagementService_toggleLike e r u postId isLiked c) = Inr res
          \<and> (res = JustTrue \<or> (\<exists>n. res = Count n)))
   \<and> toast (PostPage_handleLike e r u postId c) = toast c"
proof -
  have "toast (PostPage_handleLike e r u postId c) = toast c"
  proof (cases "parse_ids (local_likedPosts c)")
    case (Inl a)
    then show ?thesis by (simp add: PostPage_handleLike_def Let_def)
  next
    case (Inr likedPosts)
    define c1 where "c1 = (if liked c then
                   c\<lparr>local_likedPosts := Some (Ids (filter (\<lambda>i. i \<noteq> postId) likedPosts)),
                     liked := False,
                     likeCount := max 0 (likeCount c - 1)\<rparr>
                 else
                   (if postId \<notin> set likedPosts
                    then c\<lparr>local_likedPosts := Some (Ids (likedPosts @ [postId]))\<rparr>
                    else c)
                   \<lparr>liked := True, likeCount := likeCount c + 1\<rparr>)"
    have c1t: "toast c1 = toast c" by (simp add: c1_def)
    obtain out c2 where o: "engagementService_toggleLike e r u postId (liked c) c1 = (out, c2)"
      by (cases "engagementService_toggleLike e r u postId (liked c) c1")
    with toggleLike_resolves[of e r u postId "liked c" c1] obtain v where v: "out = Inr v"
      by auto
    from o toggleLike_state[of e r u postId "liked c" c1] have "toast c2 = toast c1" by auto
    with Inr o v c1t show ?thesis
      by (simp add: PostPage_handleLike_def Let_def c1_def[symmetric]
          split: like_result.splits)
  qed
  moreover have "\<exists>res. fst (engagementService_toggleLike e r u postId isLiked c) = Inr res
          \<and> (res = JustTrue \<or> (\<exists>n. res = Count n))"
    using toggleLike_resolves[of e r u postId isLiked c] by (metis like_result.exhaust)
  ultimately show ?thesis by simp
qed

text \<open>With the remote store out of reach every request of \<open>toggleLike\<close> rejects; it
  resolves to \<open>true\<close> and the page shows no toast.\<close>

theorem toggleLike_never_rejects_witness:
  "fst (engagementService_toggleLike online_env unreachable (Inr ''guest-1'') ''p-first'' False
          fresh_client) = Inr JustTrue
   \<and> toast (PostPage_handleLike online_env unreachable (Inr ''guest-1'') ''p-first''
          fresh_client) = None"
proof -
  have "fst (engagementService_toggleLike online_env unreachable (Inr ''guest-1'') ''p-first''
          False fresh_client) = Inr JustTrue"
    by (simp add: engagementService_toggleLike_def online_configured signInAnonymously_def
        fresh_client_def write_like_def unreachable_def try_catch_def)
  moreover have "toast fresh_client = None" by (simp add: fresh_client_def)
  ultimately show ?thesis
    using toggleLike_never_rejects[of online_env unreachable "Inr ''guest-1''" "''p-first''"
        False fresh_client]
    by simp
qed

section \<open>Properties of the engagement flows\<close>

subsection \<open>Counting a view once\<close>

lemma incrementViews_resolves: "\<exists>ok. postsService_incrementViews e r postId = Inr ok"
  by (auto simp: postsService_incrementViews_def try_catch_def split: sum.splits)

lemma PostPage_trackView_absent:
  assumes "parse_ids (session_viewedPosts c) = Inr viewedPosts" "postId \<notin> set viewedPosts"
  shows "PostPage_trackView e r postId c =
     Inr (c\<lparr>incrementViews_calls := incrementViews_calls c @ [postId],
            viewCount := viewCount c + 1,
            session_viewedPosts := Some (Ids (viewedPosts @ [postId]))\<rparr>)"
  using assms incrementViews_resolves[of e r postId]
  by (auto simp: PostPage_trackView_def)

lemma PostPage_trackView_present:
  assumes "parse_ids (session_viewedPosts c) = Inr viewedPosts" "postId \<in> set viewedPosts"
  shows "PostPage_trackView e r postId c = Inr c"
  using assms by (simp add: PostPage_trackView_def)

lemma PostPage_trackView_unreadable:
  assumes "parse_ids (session_viewedPosts c) = Inl x"
  shows "PostPage_trackView e r postId c = Inl x"
  using assms by (simp add: PostPage_trackView_def)

lemma hook_trackView_viewed: "usePostEngagement_trackView e r p True c = c"
  by (simp add: usePostEngagement_trackView_def)

lemma hook_trackView_not_viewed:
  "viewed (usePostEngagement_trackView e r p False c)
   \<and> incrementViews_calls (usePostEngagement_trackView e r p False c)
       = incrementViews_calls c @ [post_id p]
   \<and> viewCount (usePostEngagement_trackView e r p False c) = viewCount c + 1
   \<and> (\<forall>xs. parse_ids (session_viewedPosts c) = Inr xs \<longrightarrow>
        session_viewedPosts (usePostEngagement_trackView e r p False c)
          = Some (Ids (xs @ [post_id p])))
   \<and> (\<forall>x. parse_ids (session_viewedPosts c) = Inl x \<longrightarrow>
        session_viewedPosts (usePostEngagement_trackView e r p False c) = session_viewedPosts c)"
  using incrementViews_resolves[of e r "post_id p"]
  by (auto simp: usePostEngagement_trackView_def Let_def split: sum.splits)

text \<open>
  The post page. View tracking run twice, one run after the other, on the same session
  storage (\<open>c1\<close> after the first run, \<open>c2\<close> after the second; the environment and
  the remote store may differ between the runs): \<open>posts.incrementViews\<close> is called at
  most once for the post id. A first run that finds the id absent from the session list
  calls it and appends the id, and the second run changes nothing; a run that finds the
  id present, or cannot read the list, changes nothing.
\<close>

lemma PostPage_view_counted_once:
  assumes c1: "c1 = state_after c (PostPage_trackView e r postId c)"
    and c2: "c2 = state_after c1 (PostPage_trackView e' r' postId c1)"
  shows
    "count_list (incrementViews_calls c2) postId \<le> count_list (incrementViews_calls c) postId + 1
   \<and> (parse_ids (session_viewedPosts c) = Inr viewedPosts \<and> postId \<notin> set viewedPosts \<longrightarrow>
        incrementViews_calls c1 = incrementViews_calls c @ [postId]
      \<and> session_viewedPosts c1 = Some (Ids (viewedPosts @ [postId]))
      \<and> c2 = c1)
   \<and> (parse_ids (session_viewedPosts c) = Inr viewedPosts \<and> postId \<in> set viewedPosts \<longrightarrow>
        c1 = c \<and> c2 = c)
   \<and> (parse_ids (session_viewedPosts c) = Inl x \<longrightarrow> c1 = c \<and> c2 = c)"
proof -
  have absent: "incrementViews_calls c1 = incrementViews_calls c @ [postId]
      \<and> session_viewedPosts c1 = Some (Ids (viewedPosts @ [postId])) \<and> c2 = c1"
    if p: "parse_ids (session_viewedPosts c) = Inr viewedPosts" and n: "postId \<notin> set viewedPosts"
    for viewedPosts
  proof -
    have 1: "c1 = c\<lparr>incrementViews_calls := incrementViews_calls c @ [postId],
            viewCount := viewCount c + 1,
            session_viewedPosts := Some (Ids (viewedPosts @ [postId]))\<rparr>"
      using PostPage_trackView_absent[OF p n, of e r] by (simp add: c1 state_after_def)
    then have "parse_ids (session_viewedPosts c1) = Inr (viewedPosts @ [postId])"
      by (simp add: parse_ids_def)
    then have "PostPage_trackView e' r' postId c1 = Inr c1"
      by (rule PostPage_trackView_present) simp
    with 1 show ?thesis by (simp add: c2 state_after_def)
  qed
  have present: "c1 = c \<and> c2 = c"
    if p: "parse_ids (session_viewedPosts c) = Inr viewedPosts" and n: "postId \<in> set viewedPosts"
    for viewedPosts
    using PostPage_trackView_present[OF p n] by (simp add: c1 c2 state_after_def)
  have unreadable: "c1 = c \<and> c2 = c" if "parse_ids (session_viewedPosts c) = Inl x" for x
    using PostPage_trackView_unreadable[OF that] by (simp add: c1 c2 state_after_def)
  have page: "count_list (incrementViews_calls c2) postId
                \<le> count_list (incrementViews_calls c) postId + 1"
  proof (cases "parse_ids (session_viewedPosts c)")
    case (Inl x)
    with unreadable show ?thesis by simp
  next
    case (Inr xs)
    show ?thesis
    proof (cases "postId \<in> set xs")
      case True
      with present[OF Inr] show ?thesis by simp
    next
      case False
      with absent[OF Inr] show ?thesis by simp
    qed
  qed
  from page absent present unreadable show ?thesis by blast
qed

text \<open>A fresh browser opens the first post of the sample database twice on the post
  page: one call of \<open>posts.incrementViews\<close>, and the session list holds the id once.\<close>

lemma PostPage_view_counted_once_example:
  "incrementViews_calls
     (state_after
        (state_after fresh_client
           (PostPage_trackView online_env (supabase sample_db) ''p-first'' fresh_client))
        (PostPage_trackView online_env (supabase sample_db) ''p-first''
           (state_after fresh_client
              (PostPage_trackView online_env (supabase sample_db) ''p-first'' fresh_client))))
     = [''p-first'']
   \<and> session_viewedPosts
     (state_after
        (state_after fresh_client
           (PostPage_trackView online_env (supabase sample_db) ''p-first'' fresh_client))
        (PostPage_trackView online_env (supabase sample_db) ''p-first''
           (state_after fresh_client
              (PostPage_trackView online_env (supabase sample_db) ''p-first'' fresh_client))))
     = Some (Ids [''p-first''])"
proof -
  let ?T = "PostPage_trackView online_env (supabase sample_db) ''p-first''"
  let ?c1 = "state_after fresh_client (?T fresh_client)"
  let ?c2 = "state_after ?c1 (?T ?c1)"
  have p: "parse_ids (session_viewedPosts fresh_client) = Inr []"
    by (simp add: parse_ids_def fresh_client_def)
  have n: "incrementViews_calls fresh_client = []"
    by (simp add: fresh_client_def)
  from PostPage_view_counted_once[OF refl refl,
      where c = fresh_client and e = online_env and r = "supabase sample_db"
        and postId = "''p-first''" and e' = online_env and r' = "supabase sample_db"
        and viewedPosts = "[]" and x = network_error] p n
  have "incrementViews_calls ?c1 = [''p-first'']
        \<and> session_viewedPosts ?c1 = Some (Ids [''p-first'']) \<and> ?c2 = ?c1"
    by simp
  then show ?thesis by simp
qed

text \<open>
  The engagement hook. The guard of \<open>trackView\<close> is the \<open>viewed\<close> value its callback
  holds. A callback made while \<open>viewed\<close> was true changes nothing; the lemma
  \<open>hook_trackView_not_viewed\<close> says what a callback made while it was false does. After
  a call through the callback of the latest render (\<open>h1\<close>) \<open>viewed\<close> is set, and a
  second call through the callback of the render that follows changes nothing.
\<close>

lemma hook_trackView_latest_render:
  assumes h1: "h1 = usePostEngagement_trackView e r p (viewed c) c"
  shows "viewed h1 \<and> usePostEngagement_trackView e' r' p (viewed h1) h1 = h1"
proof -
  have v1: "viewed h1"
    using hook_trackView_viewed[of e r p c] hook_trackView_not_viewed[of e r p c]
    by (cases "viewed c") (simp_all add: h1)
  then show ?thesis by (simp add: hook_trackView_viewed)
qed

text \<open>
  C4. For every post id, view tracking run twice, one run after the other, within one
  browser session calls \<open>posts.incrementViews\<close> at most once for that id. The flow of
  the post page keeps to it (\<open>PostPage_view_counted_once\<close>). The \<open>trackView\<close> of the
  engagement hook, which its comment announces as tracking the view once, does not: it
  tests the \<open>viewed\<close> value of its callback and never the session list.

  In one browser session the first post of the sample database is visited twice through
  a component that mounts the hook and calls the \<open>trackView\<close> of its first render.
  After the first visit the session list holds the id; the second visit calls
  \<open>posts.incrementViews\<close> again, since the callback of a first render holds
  \<open>viewed = false\<close>. The same happens when one callback made while \<open>viewed\<close> was
  false is called twice.
\<close>

theorem hook_trackView_counts_twice:
  "incrementViews_calls sample_first_visit = [''p-first'']
   \<and> session_viewedPosts sample_first_visit = Some (Ids [''p-first''])
   \<and> incrementViews_calls sample_second_visit = [''p-first'', ''p-first'']
   \<and> incrementViews_calls
       (usePostEngagement_trackView online_env (supabase sample_db) sample_first False
          (usePostEngagement_trackView online_env (supabase sample_db) sample_first False
             fresh_client))
     = [''p-first'', ''p-first'']"
proof -
  have 1: "incrementViews_calls sample_first_visit = [''p-first'']
           \<and> session_viewedPosts sample_first_visit = Some (Ids [''p-first''])"
    using hook_trackView_not_viewed[of online_env "supabase sample_db" sample_first
        "state_after (usePostEngagement_mount sample_first fresh_client)
           (usePostEngagement_effect sample_first
              (usePostEngagement_mount sample_first fresh_client))"]
    by (simp add: sample_first_visit_def usePostEngagement_mount_def
        usePostEngagement_effect_def state_after_def parse_ids_def fresh_client_def
        sample_first_def Let_def)
  have 2: "incrementViews_calls sample_second_visit = [''p-first'', ''p-first'']"
    using 1 hook_trackView_not_viewed[of online_env "supabase sample_db" sample_first
        "state_after (usePostEngagement_mount sample_first sample_first_visit)
           (usePostEngagement_effect sample_first
              (usePostEngagement_mount sample_first sample_first_visit))"]
    by (simp add: sample_second_visit_def usePostEngagement_mount_def
        usePostEngagement_effect_def state_after_def parse_ids_def sample_first_def Let_def
        split: sum.splits option.splits item.splits)
  have 3: "incrementViews_calls
       (usePostEngagement_trackView online_env (supabase sample_db) sample_first False
          (usePostEngagement_trackView online_env (supabase sample_db) sample_first False
             fresh_client))
     = [''p-first'', ''p-first'']"
    using hook_trackView_not_viewed[of online_env "supabase sample_db" sample_first fresh_client]
      hook_trackView_not_viewed[of online_env "supabase sample_db" sample_first
        "usePostEngagement_trackView online_env (supabase sample_db) sample_first False
           fresh_client"]
    by (simp add: fresh_client_def sample_first_def)
  from 1 2 3 show ?thesis by simp
qed

subsection \<open>Liking and unliking\<close>

lemma handleLike_like:
  assumes "\<not> liked c" "parse_ids (local_likedPosts c) = Inr likedPosts" "postId \<notin> set likedPosts"
  shows "liked (PostPage_handleLike e r u postId c)
       \<and> local_likedPosts (PostPage_handleLike e r u postId c)
           = Some (Ids (likedPosts @ [postId]))"
proof -
  let ?c1 = "c\<lparr>local_likedPosts := Some (Ids (likedPosts @ [postId])),
              liked := True, likeCount := likeCount c + 1\<rparr>"
  obtain out c2 where o: "engagementService_toggleLike e r u postId False ?c1 = (out, c2)"
    by (cases "engagementService_toggleLike e r u postId False ?c1")
  from toggleLike_state[of e r u postId False ?c1] o
  obtain g where "c2 = ?c1\<lparr>local_blog_guest_id := g\<rparr>" by auto
  with assms o show ?thesis
    by (simp add: PostPage_handleLike_def Let_def split: sum.splits like_result.splits)
qed

lemma handleLike_unlike:
  assumes "liked c" "parse_ids (local_likedPosts c) = Inr likedPosts"
  shows "\<not> liked (PostPage_handleLike e r u postId c)
       \<and> local_likedPosts (PostPage_handleLike e r u postId c)
           = Some (Ids (filter (\<lambda>i. i \<noteq> postId) likedPosts))"
proof -
  let ?c1 = "c\<lparr>local_likedPosts := Some (Ids (filter (\<lambda>i. i \<noteq> postId) likedPosts)),
              liked := False, likeCount := max 0 (likeCount c - 1)\<rparr>"
  obtain out c2 where o: "engagementService_toggleLike e r u postId True ?c1 = (out, c2)"
    by (cases "engagementService_toggleLike e r u postId True ?c1")
  from toggleLike_state[of e r u postId True ?c1] o
  obtain g where "c2 = ?c1\<lparr>local_blog_guest_id := g\<rparr>" by auto
  with assms o show ?thesis
    by (simp add: PostPage_handleLike_def Let_def split: sum.splits like_result.splits)
qed

lemma hook_toggle_like:
  assumes "\<not> liked c" "parse_ids (local_likedPosts c) = Inr likedPosts"
  shows "liked (usePostEngagement_toggleLike e r u p c)
       \<and> local_likedPosts (usePostEngagement_toggleLike e r u p c)
           = Some (Ids (likedPosts @ [post_id p]))"
proof -
  obtain out c1 where o: "engagementService_toggleLike e r u (post_id p) (liked c) c = (out, c1)"
    by (cases "engagementService_toggleLike e r u (post_id p) (liked c) c")
  from toggleLike_state[of e r u "post_id p" "liked c" c] o
  obtain g where g: "c1 = c\<lparr>local_blog_guest_id := g\<rparr>" by auto
  from toggleLike_resolves[of e r u "post_id p" "liked c" c] o
  obtain n where "out = Inr n" by auto
  with assms o g show ?thesis
    by (simp add: usePostEngagement_toggleLike_def)
qed

lemma hook_toggle_unlike:
  assumes "liked c" "parse_ids (local_likedPosts c) = Inr likedPosts"
  shows "\<not> liked (usePostEngagement_toggleLike e r u p c)
       \<and> local_likedPosts (usePostEngagement_toggleLike e r u p c)
           = Some (Ids (filter (\<lambda>i. i \<noteq> post_id p) likedPosts))"
proof -
  obtain out c1 where o: "engagementService_toggleLike e r u (post_id p) (liked c) c = (out, c1)"
    by (cases "engagementService_toggleLike e r u (post_id p) (liked c) c")
  from toggleLike_state[of e r u "post_id p" "liked c" c] o
  obtain g where g: "c1 = c\<lparr>local_blog_guest_id := g\<rparr>" by auto
  from toggleLike_resolves[of e r u "post_id p" "liked c" c] o
  obtain n where "out = Inr n" by auto
  with assms o g show ?thesis
    by (simp add: usePostEngagement_toggleLike_def)
qed

lemma filter_out_absent: "x \<notin> set xs \<Longrightarrow> filter (\<lambda>i. i \<noteq> x) xs = xs"
  by (induction xs) auto

text \<open>
  C5. From a state in which the post is not liked and its id is absent from the
  persistent liked-posts list (\<open>likedPosts\<close> is the list read from local storage, empty
  when nothing is stored), toggling the like twice leaves the list as it was: the same
  ids in the same order, and the post not liked. This holds for \<open>handleLike\<close> of the
  post page (\<open>c2\<close>) and for \<open>toggleLike\<close> of the engagement hook (\<open>h2\<close>), whatever the
  remote store answers to either toggle. Where nothing was stored before, the item now
  holds the empty list.
\<close>

theorem like_round_trip:
  assumes nl: "\<not> liked c"
    and ps: "parse_ids (local_likedPosts c) = Inr likedPosts"
    and ab: "postId \<notin> set likedPosts"
    and pg: "c2 = PostPage_handleLike e' r' u' postId (PostPage_handleLike e r u postId c)"
    and hk: "h2 = usePostEngagement_toggleLike e' r' u' p (usePostEngagement_toggleLike e r u p c)"
    and pid: "post_id p = postId"
  shows "parse_ids (local_likedPosts c2) = Inr likedPosts \<and> \<not> liked c2
       \<and> local_likedPosts c2 = Some (Ids likedPosts)
       \<and> parse_ids (local_likedPosts h2) = Inr likedPosts \<and> \<not> liked h2
       \<and> local_likedPosts h2 = Some (Ids likedPosts)"
proof -
  let ?c1 = "PostPage_handleLike e r u postId c"
  from handleLike_like[OF nl ps ab, of e r u]
  have l1: "liked ?c1" and s1: "local_likedPosts ?c1 = Some (Ids (likedPosts @ [postId]))"
    by simp_all
  from s1 have p1: "parse_ids (local_likedPosts ?c1) = Inr (likedPosts @ [postId])"
    by (simp add: parse_ids_def)
  from handleLike_unlike[OF l1 p1, of e' r' u' postId] ab
  have page: "\<not> liked c2 \<and> local_likedPosts c2 = Some (Ids likedPosts)"
    by (simp add: pg filter_out_absent)
  let ?h1 = "usePostEngagement_toggleLike e r u p c"
  from hook_toggle_like[OF nl ps, of e r u p]
  have hl1: "liked ?h1" and hs1: "local_likedPosts ?h1 = Some (Ids (likedPosts @ [postId]))"
    by (simp_all add: pid)
  from hs1 have hp1: "parse_ids (local_likedPosts ?h1) = Inr (likedPosts @ [postId])"
    by (simp add: parse_ids_def)
  from hook_toggle_unlike[OF hl1 hp1, of e' r' u' p] ab
  have hook: "\<not> liked h2 \<and> local_likedPosts h2 = Some (Ids likedPosts)"
    by (simp add: hk pid filter_out_absent)
  from page hook show ?thesis by (simp add: parse_ids_def)
qed

text \<open>A browser that likes the second post of the sample database likes and unlikes the
  first one, once with the remote store answering and once with it out of reach: the
  list holds the second post alone, as before.\<close>

theorem like_round_trip_witness:
  "local_likedPosts
     (PostPage_handleLike online_env unreachable (Inr ''guest-1'') ''p-first''
        (PostPage_handleLike online_env (supabase sample_db) (Inr ''guest-1'') ''p-first''
           (fresh_client\<lparr>local_likedPosts := Some (Ids [''p-second''])\<rparr>)))
     = Some (Ids [''p-second''])
   \<and> local_likedPosts
     (usePostEngagement_toggleLike online_env unreachable (Inr ''guest-1'') sample_first
        (usePostEngagement_toggleLike online_env (supabase sample_db) (Inr ''guest-1'')
           sample_first (fresh_client\<lparr>local_likedPosts := Some (Ids [''p-second''])\<rparr>)))
     = Some (Ids [''p-second''])"
proof -
  let ?c = "fresh_client\<lparr>local_likedPosts := Some (Ids [''p-second''])\<rparr>"
  have nl: "\<not> liked ?c" by (simp add: fresh_client_def)
  have ps: "parse_ids (local_likedPosts ?c) = Inr [''p-second'']"
    by (simp add: parse_ids_def)
  have ab: "''p-first'' \<notin> set [''p-second'']" by simp
  have pid: "post_id sample_first = ''p-first''" by (simp add: sample_first_def)
  from like_round_trip[where e = online_env and r = "supabase sample_db"
      and u = "Inr ''guest-1''" and e' = online_env and r' = unreachable
      and u' = "Inr ''guest-1''", OF nl ps ab refl refl pid]
  show ?thesis by simp
qed

end
